theory Spec2Isabelle
  imports Complex_Main
begin

section \<open>Values\<close>

text \<open>
  Tool arguments and the payloads exchanged with Jira are JSON values. An object is an
  association list in insertion order; a property that is not there reads as
  \<open>None\<close> (JavaScript's \<open>undefined\<close>). A number is a real: every finite double is one.
  The handlers compare strings, concatenate them and test them for emptiness; whatever
  else they do with a string they leave to a built-in function.
\<close>

datatype json =
    JNull
  | JBool bool
  | JNum real
  | JStr string
  | JArr "json list"
  | JObj "(string \<times> json) list"

type_synonym object = "(string \<times> json) list"

text \<open>\<open>args.key\<close>\<close>

definition field :: "object \<Rightarrow> string \<Rightarrow> json option" where
  "field obj k = map_of obj k"

text \<open>The truthiness test of \<open>if (x)\<close>, \<open>x ? a : b\<close> and \<open>x || y\<close>.\<close>

fun truthy :: "json option \<Rightarrow> bool" where
  "truthy None = False"
| "truthy (Some JNull) = False"
| "truthy (Some (JBool b)) = b"
| "truthy (Some (JNum n)) = (n \<noteq> 0)"
| "truthy (Some (JStr s)) = (s \<noteq> [])"
| "truthy (Some (JArr xs)) = True"
| "truthy (Some (JObj kvs)) = True"

subsection \<open>Strings\<close>

text \<open>\<open>xs.join(sep)\<close>\<close>

fun join :: "string \<Rightarrow> string list \<Rightarrow> string" where
  "join sep [] = []"
| "join sep [x] = x"
| "join sep (x # y # ys) = x @ sep @ join sep (y # ys)"

definition digit_char :: "nat \<Rightarrow> char" where
  "digit_char d = ''0123456789'' ! (d mod 10)"

fun string_of_nat :: "nat \<Rightarrow> string" where
  "string_of_nat n =
     (if n < 10 then [digit_char n] else string_of_nat (n div 10) @ [digit_char (n mod 10)])"

declare string_of_nat.simps [simp del]

text \<open>The decimal text of an integer, for error codes and HTTP statuses.\<close>

definition string_of_int :: "int \<Rightarrow> string" where
  "string_of_int i = (if i < 0 then CHR ''-'' # string_of_nat (nat (- i)) else string_of_nat (nat i))"

definition is_digit :: "char \<Rightarrow> bool" where
  "is_digit c = (c \<in> set ''0123456789'')"

subsection \<open>Built-in functions\<close>

text \<open>
  The functions of the JavaScript engine that the handlers call and the repository does
  not define. They are parameters of the model: \<open>s.toLowerCase()\<close>; \<open>parseInt(s, 10)\<close>, where
  \<open>None\<close> stands for a result that is no finite number (\<open>NaN\<close>, or an infinity for a run
  of digits too long for a double); and the text that a template literal gives a
  number.
\<close>

record engine =
  toLowerCase :: "string \<Rightarrow> string"
  parseInt :: "string \<Rightarrow> real option"
  numberText :: "real \<Rightarrow> string"

text \<open>
  The text of \<open>${x}\<close> in a template literal. An array prints its elements separated by
  commas, \<open>null\<close> elements as nothing, and an object prints as \<open>[object Object]\<close>.
\<close>

fun js_string :: "engine \<Rightarrow> json \<Rightarrow> string"
  and js_elems :: "engine \<Rightarrow> json list \<Rightarrow> string list" where
  "js_string js JNull = ''null''"
| "js_string js (JBool b) = (if b then ''true'' else ''false'')"
| "js_string js (JNum n) = numberText js n"
| "js_string js (JStr s) = s"
| "js_string js (JArr xs) = join '','' (js_elems js xs)"
| "js_string js (JObj kvs) = ''[object Object]''"
| "js_elems js [] = []"
| "js_elems js (x # xs) = (if x = JNull then [] else js_string js x) # js_elems js xs"

definition template :: "engine \<Rightarrow> json option \<Rightarrow> string" where
  "template js x = (case x of None \<Rightarrow> ''undefined'' | Some v \<Rightarrow> js_string js v)"

section \<open>Tool registry\<close>

text \<open>
  An input schema is a JSON Schema object: a list of keywords. Only the keywords the
  registry uses are here. \<open>PatternDigits\<close> is the one \<open>pattern\<close> of the registry,
  the regular expression for a non-empty run of decimal digits.
\<close>

datatype jtype = TObject | TString | TNumber | TArray

datatype keyword =
    Type jtype
  | Description string
  | Properties "(string \<times> keyword list) list"
  | Required "string list"
  | AdditionalProperties bool
  | MinProperties nat
  | Items "keyword list"
  | Enum "string list"
  | Minimum real
  | PatternDigits
  | OneOf "keyword list list"
  | AnyOf "keyword list list"

type_synonym schema = "keyword list"

record tool =
  name :: string
  description :: string
  inputSchema :: schema

subsection \<open>Schema validation\<close>

text \<open>
  The validators are compiled by the Ajv library, which is not part of the repository.
  \<open>all_hold\<close> is JSON Schema validity for the keywords above: a keyword constrains the
  values of its own type and accepts all others.
\<close>

fun has_type :: "jtype \<Rightarrow> json \<Rightarrow> bool" where
  "has_type TObject (JObj kvs) = True"
| "has_type TString (JStr s) = True"
| "has_type TNumber (JNum n) = True"
| "has_type TArray (JArr xs) = True"
| "has_type t v = False"

text \<open>The property names a schema declares, which \<open>additionalProperties: false\<close> refers to.\<close>

fun declared :: "keyword list \<Rightarrow> string list" where
  "declared [] = []"
| "declared (Properties ps # ks) = map fst ps @ declared ks"
| "declared (k # ks) = declared ks"

function (sequential) holds :: "string list \<Rightarrow> keyword \<Rightarrow> json \<Rightarrow> bool"
  and all_hold :: "string list \<Rightarrow> keyword list \<Rightarrow> json \<Rightarrow> bool"
  and valid_properties :: "(string \<times> keyword list) list \<Rightarrow> object \<Rightarrow> bool"
  and count_valid :: "keyword list list \<Rightarrow> json \<Rightarrow> nat" where
  "holds ds (Type t) v = has_type t v"
| "holds ds (Description d) v = True"
| "holds ds (Properties ps) v = (case v of JObj kvs \<Rightarrow> valid_properties ps kvs | _ \<Rightarrow> True)"
| "holds ds (Required ks) v =
     (case v of JObj kvs \<Rightarrow> list_all (\<lambda>k. k \<in> set (map fst kvs)) ks | _ \<Rightarrow> True)"
| "holds ds (AdditionalProperties b) v =
     (case v of JObj kvs \<Rightarrow> b \<or> list_all (\<lambda>k. k \<in> set ds) (map fst kvs) | _ \<Rightarrow> True)"
| "holds ds (MinProperties n) v =
     (case v of JObj kvs \<Rightarrow> n \<le> length (remdups (map fst kvs)) | _ \<Rightarrow> True)"
| "holds ds (Items s) v =
     (case v of JArr xs \<Rightarrow> list_all (all_hold (declared s) s) xs | _ \<Rightarrow> True)"
| "holds ds (Enum allowed) v = (v \<in> set (map JStr allowed))"
| "holds ds (Minimum m) v = (case v of JNum n \<Rightarrow> m \<le> n | _ \<Rightarrow> True)"
| "holds ds PatternDigits v =
     (case v of JStr s \<Rightarrow> s \<noteq> [] \<and> list_all is_digit s | _ \<Rightarrow> True)"
| "holds ds (OneOf ss) v = (count_valid ss v = 1)"
| "holds ds (AnyOf ss) v = (0 < count_valid ss v)"
| "all_hold ds [] v = True"
| "all_hold ds (k # ks) v = (holds ds k v \<and> all_hold ds ks v)"
| "valid_properties [] kvs = True"
| "valid_properties ((k, s) # ps) kvs =
     ((case map_of kvs k of None \<Rightarrow> True | Some v \<Rightarrow> all_hold (declared s) s v)
      \<and> valid_properties ps kvs)"
| "count_valid [] v = 0"
| "count_valid (s # ss) v =
     (if all_hold (declared s) s v then Suc (count_valid ss v) else count_valid ss v)"
  by pat_completeness auto

termination
  by (relation "measure (\<lambda>x. case x of
        Inl (Inl (ds, k, v)) \<Rightarrow> 3 * size k
      | Inl (Inr (ds, ks, v)) \<Rightarrow> 3 * size_list size ks + 1
      | Inr (Inl (ps, kvs)) \<Rightarrow> 3 * size_list (size_prod (\<lambda>_. 0) (size_list size)) ps + 2
      | Inr (Inr (ss, v)) \<Rightarrow> 3 * size_list (size_list size) ss + 2)") auto

text \<open>\<open>ajv.compile(schema)\<close>, as the predicate it returns.\<close>

definition compile :: "schema \<Rightarrow> json \<Rightarrow> bool" where
  "compile s v = all_hold (declared s) s v"

subsection \<open>The registry of \<open>server.ts\<close>\<close>

definition tools :: "tool list" where \<open>tools = [
  \<lparr>name = ''delete_issue'',
   description = ''Delete a Jira issue or subtask'',
   inputSchema = [
     Type TObject,
     Properties [
       (''issueKey'', [Type TString,
                       Description ''Key of the issue to delete (e.g., "PROJ-123")''])],
     Required [''issueKey''],
     AdditionalProperties False]\<rparr>,
  \<lparr>name = ''get_issues'',
   description = ''Get all issues and subtasks for a project or rapid view'',
   inputSchema = [
     Type TObject,
     Properties [
       (''projectKey'', [Type TString, Description ''Project key (e.g., "PROJ")'']),
       (''rapidView'', [OneOf [
          [Type TNumber, Description ''Rapid view ID (e.g., 117)'', Minimum 1],
          [Type TString, Description ''Rapid view ID as string (e.g., "117")'', PatternDigits]]]),
       (''jql'', [Type TString, Description ''Optional JQL query to filter issues''])],
     AdditionalProperties False]\<rparr>,
  \<lparr>name = ''get_assigned_issues'',
   description = ''Get issues assigned to a user, with options to filter by assignment status (current, past, or all).'',
   inputSchema = [
     Type TObject,
     Properties [
       (''accountId'', [Type TString,
          Description ''The account ID of the user to find issues for. Use get_user to find this.'']),
       (''status'', [Type TString,
          Description ''Filter by assignment status: "current" (default), "past", or "all".'',
          Enum [''current'', ''past'', ''all'']]),
       (''additionalJql'', [Type TString,
          Description ''Optional additional JQL query to combine with the assignee search (e.g., "project = PROJ").''])],
     Required [''accountId''],
     AdditionalProperties False]\<rparr>,
  \<lparr>name = ''update_issue'',
   description = ''Update an existing Jira issue'',
   inputSchema = [
     Type TObject,
     Properties [
       (''issueKey'', [Type TString,
                       Description ''Key of the issue to update (e.g., "PROJ-123")'']),
       (''summary'', [Type TString, Description ''New summary/title'']),
       (''description'', [Type TString, Description ''New description (ADF format recommended)'']),
       (''assignee'', [Type TString,
                       Description ''Account ID of the new assignee (use get_user to find)'']),
       (''status'', [Type TString,
                     Description ''New status name (requires transition ID internally)'']),
       (''priority'', [Type TString, Description ''New priority name''])],
     Required [''issueKey''],
     MinProperties 2,
     AdditionalProperties False]\<rparr>,
  \<lparr>name = ''list_fields'',
   description = ''List all available fields in the Jira instance'',
   inputSchema = [Type TObject, Properties [], Required [], AdditionalProperties False]\<rparr>,
  \<lparr>name = ''list_issue_types'',
   description = ''List all available issue types'',
   inputSchema = [Type TObject, Properties [], Required [], AdditionalProperties False]\<rparr>,
  \<lparr>name = ''list_link_types'',
   description = ''List all available issue link types'',
   inputSchema = [Type TObject, Properties [], Required [], AdditionalProperties False]\<rparr>,
  \<lparr>name = ''get_user'',
   description = ''Get a user's account ID by email address'',
   inputSchema = [
     Type TObject,
     Properties [(''email'', [Type TString, Description ''User's email address''])],
     Required [''email''],
     AdditionalProperties False]\<rparr>,
  \<lparr>name = ''create_issue'',
   description = ''Create a new Jira issue'',
   inputSchema = [
     Type TObject,
     Properties [
       (''projectKey'', [Type TString, Description ''Project key (e.g., "PROJ")'']),
       (''summary'', [Type TString, Description ''Issue summary/title'']),
       (''issueType'', [Type TString,
                        Description ''Name of the issue type (e.g., "Task", "Bug")'']),
       (''description'', [Type TString,
                          Description ''Detailed description (ADF format recommended)'']),
       (''assignee'', [Type TString,
                       Description ''Account ID of the assignee (use get_user to find)'']),
       (''labels'', [Type TArray, Items [Type TString], Description ''Array of labels'']),
       (''components'', [Type TArray, Items [Type TString],
                         Description ''Array of component names'']),
       (''priority'', [Type TString, Description ''Issue priority name''])],
     Required [''projectKey'', ''summary'', ''issueType''],
     AdditionalProperties False]\<rparr>,
  \<lparr>name = ''create_issue_link'',
   description = ''Create a link between two issues'',
   inputSchema = [
     Type TObject,
     Properties [
       (''inwardIssueKey'', [Type TString,
                             Description ''Key of the inward issue (e.g., "PROJ-123")'']),
       (''outwardIssueKey'', [Type TString,
                              Description ''Key of the outward issue (e.g., "PROJ-456")'']),
       (''linkType'', [Type TString, Description ''Name of the link type (e.g., "Blocks")''])],
     Required [''inwardIssueKey'', ''outwardIssueKey'', ''linkType''],
     AdditionalProperties False]\<rparr>,
  \<lparr>name = ''get_issue'',
   description = ''Get a specific Jira issue by key'',
   inputSchema = [
     Type TObject,
     Properties [
       (''issueKey'', [Type TString,
                       Description ''Key of the issue to retrieve (e.g., "PROJ-123")''])],
     Required [''issueKey''],
     AdditionalProperties False]\<rparr>]\<close>

text \<open>\<open>tools.find((t) => t.name === name)\<close>\<close>

definition find_tool :: "tool list \<Rightarrow> string \<Rightarrow> tool option" where
  "find_tool ts nm = find (\<lambda>t. name t = nm) ts"

text \<open>
  \<open>toolValidators\<close>: one compiled validator per tool name. \<open>Map.set\<close> keeps the last
  entry of a name, so the list is searched from its end.
\<close>

definition toolValidators :: "tool list \<Rightarrow> string \<Rightarrow> (json \<Rightarrow> bool) option" where
  "toolValidators ts nm = map_option (\<lambda>t. compile (inputSchema t)) (find_tool (rev ts) nm)"

section \<open>Errors\<close>

text \<open>The codes of the MCP SDK's \<open>ErrorCode\<close> that the server uses.\<close>

datatype error_code = MethodNotFound | InvalidParams | InvalidRequest | InternalError

fun code_number :: "error_code \<Rightarrow> int" where
  "code_number MethodNotFound = - 32601"
| "code_number InvalidParams = - 32602"
| "code_number InvalidRequest = - 32600"
| "code_number InternalError = - 32603"

text \<open>
  What a handler can throw: an error of the Jira client, with the optional properties
  \<open>status\<close>, \<open>errorMessages\<close> and \<open>message\<close> that the catch block reads, or an
  \<open>McpError\<close> made by \<open>new McpError(code, message, data)\<close>, whose data is absent or
  \<open>{ originalError }\<close>.
\<close>

datatype js_error =
    JiraError "int option" "string list option" "string option"
  | McpError error_code string "js_error option"

text \<open>\<open>error?.status\<close>\<close>

fun error_status :: "js_error \<Rightarrow> int option" where
  "error_status (JiraError st ms m) = st"
| "error_status (McpError c m d) = None"

text \<open>\<open>error?.errorMessages\<close>\<close>

fun error_errorMessages :: "js_error \<Rightarrow> string list option" where
  "error_errorMessages (JiraError st ms m) = ms"
| "error_errorMessages (McpError c m d) = None"

text \<open>
  \<open>error?.message\<close>. The SDK's \<open>McpError\<close> constructor prefixes the message it is given
  with \<open>MCP error <code>: \<close>.
\<close>

fun error_message :: "js_error \<Rightarrow> string option" where
  "error_message (JiraError st ms m) = m"
| "error_message (McpError c m d) = Some (''MCP error '' @ string_of_int (code_number c) @ '': '' @ m)"

section \<open>The Jira client\<close>

text \<open>
  The records the handlers read from Jira's answers, with the properties they read.
  Issue types, priorities, project components, statuses and a board's filter are
  \<open>{ id?, name? }\<close>.
\<close>

datatype named = Named (id_of: "string option") (name_of: "string option")

datatype project = Project (project_id: "string option")

datatype transition = Transition (transition_id: "string option") (transition_to: "named option")

datatype transitions = Transitions (transitions_of: "transition list option")

datatype board_config = BoardConfig (config_filter: "named option")

datatype jira_filter = JiraFilter (filter_jql: "string option")

datatype user = User (emailAddress: "string option") (accountId: "string option")

text \<open>The remote calls, as they appear in the log of one tool call.\<close>

datatype call =
    DeleteIssue string
  | GetBoard real
  | GetConfiguration real
  | GetFilter string
  | SearchForIssuesUsingJql string
  | GetPriorities
  | GetTransitions string
  | EditIssue string object
  | DoTransition string string
  | GetIssue string
  | GetFields
  | GetIssueAllTypes
  | GetIssueLinkTypes
  | FindUsers string
  | GetProject string
  | GetProjectComponents string
  | CreateIssue object
  | LinkIssues string string string

text \<open>
  \<open>jiraClient\<close> and \<open>agileClient\<close>: every operation answers with a value or throws. The
  answer may depend on the calls made before it, which each operation is given.
\<close>

record jira =
  deleteIssue :: "call list \<Rightarrow> string \<Rightarrow> js_error + unit"
  getBoard :: "call list \<Rightarrow> real \<Rightarrow> js_error + json"
  getConfiguration :: "call list \<Rightarrow> real \<Rightarrow> js_error + board_config"
  getFilter :: "call list \<Rightarrow> string \<Rightarrow> js_error + jira_filter"
  searchForIssuesUsingJql :: "call list \<Rightarrow> string \<Rightarrow> js_error + json"
  getPriorities :: "call list \<Rightarrow> js_error + named list"
  getTransitions :: "call list \<Rightarrow> string \<Rightarrow> js_error + transitions"
  editIssue :: "call list \<Rightarrow> string \<Rightarrow> object \<Rightarrow> js_error + unit"
  doTransition :: "call list \<Rightarrow> string \<Rightarrow> string \<Rightarrow> js_error + unit"
  getIssue :: "call list \<Rightarrow> string \<Rightarrow> js_error + json"
  getFields :: "call list \<Rightarrow> js_error + json"
  getIssueAllTypes :: "call list \<Rightarrow> js_error + named list"
  getIssueLinkTypes :: "call list \<Rightarrow> js_error + json"
  findUsers :: "call list \<Rightarrow> string \<Rightarrow> js_error + user list"
  getProject :: "call list \<Rightarrow> string \<Rightarrow> js_error + project"
  getProjectComponents :: "call list \<Rightarrow> string \<Rightarrow> js_error + named list"
  createIssue :: "call list \<Rightarrow> object \<Rightarrow> js_error + json"
  linkIssues :: "call list \<Rightarrow> string \<Rightarrow> string \<Rightarrow> string \<Rightarrow> js_error + unit"

subsection \<open>Awaited calls\<close>

text \<open>
  A handler is a function of the log so far that gives a value or a thrown error, and the
  log extended by the calls it made.
\<close>

type_synonym 'a io = "call list \<Rightarrow> (js_error + 'a) \<times> call list"

definition io_return :: "'a \<Rightarrow> 'a io" where
  "io_return x tr = (Inr x, tr)"

definition io_throw :: "js_error \<Rightarrow> 'a io" where
  "io_throw e tr = (Inl e, tr)"

definition io_bind :: "'a io \<Rightarrow> ('a \<Rightarrow> 'b io) \<Rightarrow> 'b io" where
  "io_bind m f tr = (case m tr of (Inl e, tr') \<Rightarrow> (Inl e, tr') | (Inr x, tr') \<Rightarrow> f x tr')"

text \<open>\<open>try { m } catch (e) { h(e) }\<close>\<close>

definition io_catch :: "'a io \<Rightarrow> (js_error \<Rightarrow> 'a io) \<Rightarrow> 'a io" where
  "io_catch m h tr = (case m tr of (Inl e, tr') \<Rightarrow> h e tr' | (Inr x, tr') \<Rightarrow> (Inr x, tr'))"

text \<open>\<open>await\<close> of one remote call: the call is logged, whatever its outcome.\<close>

definition remote :: "call \<Rightarrow> (call list \<Rightarrow> js_error + 'a) \<Rightarrow> 'a io" where
  "remote c answer tr = (answer tr, tr @ [c])"

section \<open>The tool handlers of \<open>server.ts\<close>\<close>

text \<open>
  Each case of the \<open>switch\<close> is one function of the validated arguments. A property that
  the tool's schema types as a string is passed to Jira through \<open>template\<close>, which leaves a
  string as it is. Console output is not modelled.
\<close>

text \<open>How a case ends: \<open>result = ...; break\<close>, or \<open>return\<close> of a value from inside the switch.\<close>

datatype completion = Result json | Returned json

text \<open>\<open>if (x.id)\<close>, for an optional string.\<close>

definition present :: "string option \<Rightarrow> bool" where
  "present x = (case x of None \<Rightarrow> False | Some s \<Rightarrow> s \<noteq> [])"

text \<open>\<open>xs.find((x) => x.name?.toLowerCase() === n.toLowerCase())\<close>\<close>

definition find_by_name :: "engine \<Rightarrow> named list \<Rightarrow> string \<Rightarrow> named option" where
  "find_by_name js xs n =
     find (\<lambda>x. case name_of x of None \<Rightarrow> False | Some m \<Rightarrow> toLowerCase js m = toLowerCase js n) xs"

text \<open>\<open>found?.id\<close>, kept when it is truthy.\<close>

definition found_id :: "named option \<Rightarrow> string option" where
  "found_id found =
     (case found of
        None \<Rightarrow> None
      | Some x \<Rightarrow> if present (id_of x) then id_of x else None)"

definition success_message :: "string \<Rightarrow> json" where
  "success_message m = JObj [(''success'', JBool True), (''message'', JStr m)]"

definition delete_issue :: "engine \<Rightarrow> jira \<Rightarrow> object \<Rightarrow> completion io" where
  "delete_issue js j args =
     (let issueKey = template js (field args ''issueKey'') in
      io_bind (remote (DeleteIssue issueKey) (\<lambda>tr. deleteIssue j tr issueKey)) (\<lambda>_.
      io_return (Result (success_message (''Issue '' @ issueKey @ '' deleted successfully.'')))))"

text \<open>
  The filter string of \<open>get_issues\<close>: from the board's filter when \<open>rapidView\<close> is given,
  from the project key otherwise. The filter id goes to \<open>getFilter\<close> through \<open>Number\<close>;
  the log keeps the id as Jira gave it.
\<close>

definition get_issues_jql :: "engine \<Rightarrow> jira \<Rightarrow> object \<Rightarrow> string io" where
  \<open>get_issues_jql js j args =
     (if truthy (field args ''rapidView'') then
        (let boardId =
               (case field args ''rapidView'' of
                  Some (JStr s) \<Rightarrow> parseInt js s
                | Some (JNum n) \<Rightarrow> Some n
                | _ \<Rightarrow> None)
         in case boardId of
              None \<Rightarrow>
                io_throw (McpError InvalidParams
                  (''Invalid rapidView ID: '' @ template js (field args ''rapidView'')
                     @ ''. Must be a positive integer.'') None)
            | Some b \<Rightarrow>
                if b \<notin> \<int> \<or> b \<le> 0 then
                  io_throw (McpError InvalidParams
                    (''Invalid rapidView ID: '' @ template js (field args ''rapidView'')
                       @ ''. Must be a positive integer.'') None)
                else
                  io_bind (remote (GetBoard b) (\<lambda>tr. getBoard j tr b)) (\<lambda>board.
                  io_bind (remote (GetConfiguration b) (\<lambda>tr. getConfiguration j tr b)) (\<lambda>config.
                    case found_id (config_filter config) of
                      None \<Rightarrow>
                        io_throw (McpError InvalidParams
                          (''Board '' @ numberText js b @ '' has no filter configured'') None)
                    | Some fid \<Rightarrow>
                        io_bind (remote (GetFilter fid) (\<lambda>tr. getFilter j tr fid)) (\<lambda>filter.
                          case filter_jql filter of
                            None \<Rightarrow>
                              io_throw (McpError InvalidParams
                                (''Filter '' @ fid @ '' has no JQL configured'') None)
                          | Some fjql \<Rightarrow>
                              if fjql = [] then
                                io_throw (McpError InvalidParams
                                  (''Filter '' @ fid @ '' has no JQL configured'') None)
                              else
                                io_return
                                  (if truthy (field args ''jql'')
                                   then fjql @ '' AND ('' @ template js (field args ''jql'') @ '')''
                                   else fjql)))))
      else if truthy (field args ''projectKey'') then
        io_return
          (if truthy (field args ''jql'')
           then ''project = "'' @ template js (field args ''projectKey'') @ ''" AND ''
                  @ template js (field args ''jql'')
           else ''project = "'' @ template js (field args ''projectKey'') @ ''"'')
      else
        io_throw (McpError InvalidParams ''Either projectKey or rapidView must be provided'' None))\<close>

definition get_issues :: "engine \<Rightarrow> jira \<Rightarrow> object \<Rightarrow> completion io" where
  "get_issues js j args =
     io_bind (get_issues_jql js j args) (\<lambda>jql.
     io_bind (remote (SearchForIssuesUsingJql jql) (\<lambda>tr. searchForIssuesUsingJql j tr jql)) (\<lambda>r.
     io_return (Result r)))"

definition get_assigned_issues :: "engine \<Rightarrow> jira \<Rightarrow> object \<Rightarrow> completion io" where
  \<open>get_assigned_issues js j args =
     (let accountId = template js (field args ''accountId'');
          baseJql =
            (if field args ''status'' = Some (JStr ''past'') then
               ''assignee WAS "'' @ accountId @ ''"''
             else if field args ''status'' = Some (JStr ''all'') then
               ''(assignee = "'' @ accountId @ ''" OR assignee WAS "'' @ accountId @ ''")''
             else
               ''assignee = "'' @ accountId @ ''"'');
          jql =
            (if truthy (field args ''additionalJql'')
             then baseJql @ '' AND ('' @ template js (field args ''additionalJql'') @ '')''
             else baseJql)
      in io_bind (remote (SearchForIssuesUsingJql jql) (\<lambda>tr. searchForIssuesUsingJql j tr jql))
           (\<lambda>r. io_return (Result r)))\<close>

subsection \<open>\<open>update_issue\<close>\<close>

text \<open>\<open>obj.key = v\<close> on an object that has no such key yet.\<close>

definition assign :: "object \<Rightarrow> string \<Rightarrow> json \<Rightarrow> object" where
  "assign obj k v = obj @ [(k, v)]"

text \<open>\<open>if (x) obj.key = x\<close>\<close>

definition assign_if :: "object \<Rightarrow> string \<Rightarrow> json option \<Rightarrow> object" where
  "assign_if obj k x =
     (case x of None \<Rightarrow> obj | Some v \<Rightarrow> if truthy (Some v) then assign obj k v else obj)"

text \<open>The part of \<open>fieldsToUpdate\<close> that needs no lookup: summary, description, assignee.\<close>

definition update_plain_fields :: "object \<Rightarrow> object" where
  "update_plain_fields args =
     (let f1 = assign_if [] ''summary'' (field args ''summary'');
          f2 = assign_if f1 ''description'' (field args ''description'')
      in case field args ''assignee'' of
           None \<Rightarrow> f2
         | Some a \<Rightarrow>
             if a = JNull \<or> a = JStr ''null'' then assign f2 ''assignee'' JNull
             else assign f2 ''assignee'' (JObj [(''name'', a)]))"

text \<open>
  The priority lookup: the id of the first priority whose name matches, when the
  argument is given, the lookup answers and that id is truthy; nothing otherwise.
\<close>

definition resolve_priority :: "engine \<Rightarrow> jira \<Rightarrow> json option \<Rightarrow> string option io" where
  "resolve_priority js j priority =
     (if truthy priority then
        io_catch
          (io_bind (remote GetPriorities (\<lambda>tr. getPriorities j tr)) (\<lambda>priorities.
           io_return (found_id (find_by_name js priorities (template js priority)))))
          (\<lambda>e. io_return None)
      else io_return None)"

text \<open>\<open>transitions.transitions?.find((t) => t.to?.name?.toLowerCase() === status.toLowerCase())\<close>\<close>

definition targetTransition :: "engine \<Rightarrow> transitions \<Rightarrow> string \<Rightarrow> transition option" where
  "targetTransition js ts status =
     (case transitions_of ts of
        None \<Rightarrow> None
      | Some xs \<Rightarrow>
          find (\<lambda>t. case transition_to t of
                      None \<Rightarrow> False
                    | Some st \<Rightarrow>
                        (case name_of st of
                           None \<Rightarrow> False
                         | Some m \<Rightarrow> toLowerCase js m = toLowerCase js status)) xs)"

definition resolve_transition :: "engine \<Rightarrow> jira \<Rightarrow> string \<Rightarrow> json option \<Rightarrow> string option io" where
  "resolve_transition js j issueKey status =
     (if truthy status then
        io_catch
          (io_bind (remote (GetTransitions issueKey) (\<lambda>tr. getTransitions j tr issueKey))
             (\<lambda>transitions.
                io_return
                  (case targetTransition js transitions (template js status) of
                     None \<Rightarrow> None
                   | Some t \<Rightarrow> if present (transition_id t) then transition_id t else None)))
          (\<lambda>e. io_return None)
      else io_return None)"

text \<open>The tail of the case: the transition when one was found, then the read.\<close>

definition update_issue_finish :: "jira \<Rightarrow> string \<Rightarrow> string option \<Rightarrow> completion io" where
  "update_issue_finish j issueKey transitionId =
     io_bind
       (case transitionId of
          None \<Rightarrow> io_return ()
        | Some tid \<Rightarrow> remote (DoTransition issueKey tid) (\<lambda>tr. doTransition j tr issueKey tid))
       (\<lambda>_.
     io_bind (remote (GetIssue issueKey) (\<lambda>tr. getIssue j tr issueKey)) (\<lambda>r.
     io_return (Result r)))"

text \<open>\<open>fieldsToUpdate\<close> when the lookups are done: the plain fields, then the priority found.\<close>

definition update_fields :: "object \<Rightarrow> string option \<Rightarrow> object" where
  "update_fields args priorityId =
     (case priorityId of
        None \<Rightarrow> update_plain_fields args
      | Some pid \<Rightarrow> assign (update_plain_fields args) ''priority'' (JObj [(''id'', JStr pid)]))"

definition update_issue :: "engine \<Rightarrow> jira \<Rightarrow> object \<Rightarrow> completion io" where
  "update_issue js j args =
     (let issueKey = template js (field args ''issueKey'') in
      io_bind (resolve_priority js j (field args ''priority'')) (\<lambda>priorityId.
      io_bind (resolve_transition js j issueKey (field args ''status'')) (\<lambda>transitionId.
        let fieldsToUpdate = update_fields args priorityId
        in if fieldsToUpdate \<noteq> [] then
             io_bind (remote (EditIssue issueKey fieldsToUpdate)
                        (\<lambda>tr. editIssue j tr issueKey fieldsToUpdate)) (\<lambda>_.
             update_issue_finish j issueKey transitionId)
           else if transitionId = None then
             io_return (Returned (success_message
               (''No valid fields or status transition provided for issue '' @ issueKey
                  @ ''. No update performed.'')))
           else update_issue_finish j issueKey transitionId)))"

subsection \<open>The lookups that return Jira's answer\<close>

definition named_json :: "named \<Rightarrow> json" where
  "named_json x =
     JObj ((case id_of x of None \<Rightarrow> [] | Some i \<Rightarrow> [(''id'', JStr i)])
           @ (case name_of x of None \<Rightarrow> [] | Some n \<Rightarrow> [(''name'', JStr n)]))"

definition user_json :: "user \<Rightarrow> json" where
  "user_json u =
     JObj ((case accountId u of None \<Rightarrow> [] | Some a \<Rightarrow> [(''accountId'', JStr a)])
           @ (case emailAddress u of None \<Rightarrow> [] | Some e \<Rightarrow> [(''emailAddress'', JStr e)]))"

definition list_fields :: "jira \<Rightarrow> object \<Rightarrow> completion io" where
  "list_fields j args =
     io_bind (remote GetFields (\<lambda>tr. getFields j tr)) (\<lambda>r. io_return (Result r))"

definition list_issue_types :: "jira \<Rightarrow> object \<Rightarrow> completion io" where
  "list_issue_types j args =
     io_bind (remote GetIssueAllTypes (\<lambda>tr. getIssueAllTypes j tr)) (\<lambda>r.
     io_return (Result (JArr (map named_json r))))"

definition list_link_types :: "jira \<Rightarrow> object \<Rightarrow> completion io" where
  "list_link_types j args =
     io_bind (remote GetIssueLinkTypes (\<lambda>tr. getIssueLinkTypes j tr)) (\<lambda>r. io_return (Result r))"

definition get_user :: "engine \<Rightarrow> jira \<Rightarrow> object \<Rightarrow> completion io" where
  \<open>get_user js j args =
     (let email = template js (field args ''email'') in
      io_bind (remote (FindUsers email) (\<lambda>tr. findUsers j tr email)) (\<lambda>foundUsers.
        case foundUsers of
          [] \<Rightarrow>
            io_throw (McpError InvalidRequest (''User with email "'' @ email @ ''" not found.'') None)
        | u # _ \<Rightarrow>
            (case emailAddress u of
               None \<Rightarrow>
                 io_throw (McpError InvalidRequest
                   (''User with email "'' @ email @ ''" not found.'') None)
             | Some a \<Rightarrow>
                 if toLowerCase js a = toLowerCase js email then io_return (Result (user_json u))
                 else io_throw (McpError InvalidRequest
                        (''User with email "'' @ email @ ''" not found.'') None))))\<close>

definition get_issue :: "engine \<Rightarrow> jira \<Rightarrow> object \<Rightarrow> completion io" where
  "get_issue js j args =
     (let issueKey = template js (field args ''issueKey'') in
      io_bind (remote (GetIssue issueKey) (\<lambda>tr. getIssue j tr issueKey)) (\<lambda>r.
      io_return (Result r)))"

definition create_issue_link :: "engine \<Rightarrow> jira \<Rightarrow> object \<Rightarrow> completion io" where
  "create_issue_link js j args =
     (let linkType = template js (field args ''linkType'');
          inwardIssueKey = template js (field args ''inwardIssueKey'');
          outwardIssueKey = template js (field args ''outwardIssueKey'')
      in io_bind (remote (LinkIssues linkType inwardIssueKey outwardIssueKey)
                    (\<lambda>tr. linkIssues j tr linkType inwardIssueKey outwardIssueKey)) (\<lambda>_.
         io_return (Result (success_message
           (''Link '' @ [CHR 0x27] @ linkType @ [CHR 0x27] @ '' created between ''
              @ inwardIssueKey @ '' and '' @ outwardIssueKey @ ''.'')))))"

subsection \<open>\<open>create_issue\<close>\<close>

text \<open>
  The component lookup: when a non-empty array of names is given, the ids of the names
  that match a component of the project with a truthy id, in the order of the names;
  the empty list when the lookup throws.
\<close>

definition resolve_components :: "engine \<Rightarrow> jira \<Rightarrow> string \<Rightarrow> json option \<Rightarrow> json list io" where
  "resolve_components js j projectId components =
     (case components of
        Some (JArr names) \<Rightarrow>
          if names \<noteq> [] then
            io_catch
              (io_bind (remote (GetProjectComponents projectId)
                          (\<lambda>tr. getProjectComponents j tr projectId)) (\<lambda>projectComponents.
               io_return
                 (map (\<lambda>i. JObj [(''id'', JStr i)])
                    (List.map_filter
                       (\<lambda>compName. found_id (find_by_name js projectComponents (template js (Some compName))))
                       names))))
              (\<lambda>e. io_return [])
          else io_return []
      | _ \<Rightarrow> io_return [])"

text \<open>
  The \<open>fields\<close> object of the mutation. A \<open>summary\<close> that is not there would be a
  property without a value, which the serialised payload does not have either. The
  assignee is sent as \<open>{ name: assignee }\<close> by \<open>server.ts\<close> and as
  \<open>{ accountId: assignee }\<close> by \<open>index.ts\<close>, which is the one difference between their
  two copies of this code, so the property name is a parameter.
\<close>

definition create_fields ::
  "string \<Rightarrow> object \<Rightarrow> string \<Rightarrow> string \<Rightarrow> string option \<Rightarrow> json list \<Rightarrow> object" where
  "create_fields assigneeKey args projectId issueTypeId priorityId componentObjects =
     (let f0 = [(''project'', JObj [(''id'', JStr projectId)])]
               @ (case field args ''summary'' of None \<Rightarrow> [] | Some v \<Rightarrow> [(''summary'', v)])
               @ [(''issuetype'', JObj [(''id'', JStr issueTypeId)])];
          f1 = assign_if f0 ''description'' (field args ''description'');
          f2 = (case field args ''assignee'' of
                  None \<Rightarrow> f1
                | Some a \<Rightarrow>
                    if truthy (Some a) then assign f1 ''assignee'' (JObj [(assigneeKey, a)]) else f1);
          f3 = assign_if f2 ''labels'' (field args ''labels'');
          f4 = (if componentObjects \<noteq> [] then assign f3 ''components'' (JArr componentObjects)
                else f3)
      in case priorityId of
           None \<Rightarrow> f4
         | Some pid \<Rightarrow> assign f4 ''priority'' (JObj [(''id'', JStr pid)]))"

definition create_issue :: "engine \<Rightarrow> jira \<Rightarrow> object \<Rightarrow> completion io" where
  \<open>create_issue js j args =
     (let projectKey = template js (field args ''projectKey'');
          issueType = template js (field args ''issueType'')
      in
      io_bind (remote (GetProject projectKey) (\<lambda>tr. getProject j tr projectKey)) (\<lambda>project.
        case (if present (project_id project) then project_id project else None) of
          None \<Rightarrow>
            io_throw (McpError InvalidParams
              (''Could not find project with key "'' @ projectKey @ ''".'') None)
        | Some projectId \<Rightarrow>
            io_bind (remote GetIssueAllTypes (\<lambda>tr. getIssueAllTypes j tr)) (\<lambda>issueTypes.
              case found_id (find_by_name js issueTypes issueType) of
                None \<Rightarrow>
                  io_throw (McpError InvalidParams
                    (''Issue type "'' @ issueType @ ''" not found.'') None)
              | Some issueTypeId \<Rightarrow>
                  io_bind (resolve_priority js j (field args ''priority'')) (\<lambda>priorityId.
                  io_bind (resolve_components js j projectId (field args ''components''))
                    (\<lambda>componentObjects.
                    let fields = create_fields ''name'' args projectId issueTypeId priorityId
                                   componentObjects
                    in io_bind (remote (CreateIssue fields) (\<lambda>tr. createIssue j tr fields)) (\<lambda>r.
                       io_return (Result r)))))))\<close>

section \<open>The dispatcher of \<open>server.ts\<close>\<close>

text \<open>The \<open>switch (name)\<close> of the request handler.\<close>

definition run_tool :: "engine \<Rightarrow> jira \<Rightarrow> string \<Rightarrow> object \<Rightarrow> completion io" where
  \<open>run_tool js j nm args =
     (if nm = ''delete_issue'' then delete_issue js j args
      else if nm = ''get_issues'' then get_issues js j args
      else if nm = ''get_assigned_issues'' then get_assigned_issues js j args
      else if nm = ''update_issue'' then update_issue js j args
      else if nm = ''list_fields'' then list_fields j args
      else if nm = ''list_issue_types'' then list_issue_types j args
      else if nm = ''list_link_types'' then list_link_types j args
      else if nm = ''get_user'' then get_user js j args
      else if nm = ''create_issue'' then create_issue js j args
      else if nm = ''create_issue_link'' then create_issue_link js j args
      else if nm = ''get_issue'' then get_issue js j args
      else io_throw (McpError MethodNotFound
             (''Handler for tool "'' @ nm @ ''" not implemented.'') None))\<close>

text \<open>
  The catch block around the switch: the message and the status are read off the
  thrown value, the status picks the code, and the thrown value is attached.
\<close>

definition errorMessage :: "js_error \<Rightarrow> string" where
  "errorMessage error =
     (case map_option (join '', '') (error_errorMessages error) of
        Some (c # cs) \<Rightarrow> c # cs
      | _ \<Rightarrow>
          (case error_message error of
             Some (c # cs) \<Rightarrow> c # cs
           | _ \<Rightarrow> ''An unknown error occurred''))"

definition statusCode :: "js_error \<Rightarrow> int" where
  "statusCode error =
     (case error_status error of None \<Rightarrow> 500 | Some st \<Rightarrow> if st = 0 then 500 else st)"

definition mcpErrorCode :: "int \<Rightarrow> error_code" where
  "mcpErrorCode st =
     (if st = 400 then InvalidParams
      else if st = 401 \<or> st = 403 then InvalidRequest
      else if st = 404 then InvalidRequest
      else InternalError)"

definition jira_api_error :: "js_error \<Rightarrow> js_error" where
  "jira_api_error error =
     McpError (mcpErrorCode (statusCode error))
       (''Jira API Error ('' @ string_of_int (statusCode error) @ ''): '' @ errorMessage error)
       (Some error)"

text \<open>
  What the request handler gives the SDK: the text content that carries the serialised
  result, or the bare object that the switch returned.
\<close>

datatype reply = Content json | Bare json

text \<open>
  The handler of \<open>CallToolRequestSchema\<close>, for the tool name and the optional argument
  object of the request. \<open>errorsText\<close> is Ajv's rendering of the errors that the named
  tool's validator found in the arguments. The result comes with the log of the remote
  calls made.
\<close>

definition callToolHandler ::
  "(string \<Rightarrow> object \<Rightarrow> string) \<Rightarrow> engine \<Rightarrow> jira \<Rightarrow> string \<Rightarrow> object option
     \<Rightarrow> (js_error + reply) \<times> call list" where
  \<open>callToolHandler errorsText js j nm arguments =
     (let args = (case arguments of None \<Rightarrow> [] | Some a \<Rightarrow> a) in
      case find_tool tools nm of
        None \<Rightarrow> (Inl (McpError MethodNotFound (''Tool "'' @ nm @ ''" not found.'') None), [])
      | Some tool \<Rightarrow>
          if (case toolValidators tools nm of
                None \<Rightarrow> False
              | Some validator \<Rightarrow> \<not> validator (JObj args))
          then (Inl (McpError InvalidParams
                  (''Invalid arguments for tool '' @ nm @ '': '' @ errorsText nm args) None), [])
          else
            (case run_tool js j nm args [] of
               (Inl error, tr) \<Rightarrow> (Inl (jira_api_error error), tr)
             | (Inr (Result result), tr) \<Rightarrow> (Inr (Content result), tr)
             | (Inr (Returned result), tr) \<Rightarrow> (Inr (Bare result), tr)))\<close>

section \<open>The server of \<open>index.ts\<close>\<close>

text \<open>
  The repository has a second server, the class \<open>JiraMcpServer\<close>, with its own registry
  and its own request handler. Its cases for \<open>delete_issue\<close>, \<open>get_issues\<close>, the three
  lists, \<open>get_user\<close> and \<open>create_issue_link\<close> are the code of \<open>server.ts\<close> again; its
  \<open>create_issue\<close> and \<open>update_issue\<close> are the methods below.
\<close>

definition index_tools :: "tool list" where \<open>index_tools = [
  \<lparr>name = ''delete_issue'',
   description = ''Delete a Jira issue or subtask'',
   inputSchema = [
     Type TObject,
     Properties [
       (''issueKey'', [Type TString,
                       Description ''Key of the issue to delete (e.g., "PROJ-123")''])],
     Required [''issueKey'']]\<rparr>,
  \<lparr>name = ''get_issues'',
   description = ''Get all issues and subtasks for a project or rapid view'',
   inputSchema = [
     Type TObject,
     Properties [
       (''projectKey'', [Type TString, Description ''Project key (e.g., "PROJ")'']),
       (''rapidView'', [OneOf [
          [Type TNumber, Description ''Rapid view ID (e.g., 117)'', Minimum 1],
          [Type TString, Description ''Rapid view ID as string (e.g., "117")'', PatternDigits]]]),
       (''jql'', [Type TString, Description ''Optional JQL query to filter issues''])],
     AnyOf [[Required [''projectKey'']], [Required [''rapidView'']]]]\<rparr>,
  \<lparr>name = ''update_issue'',
   description = ''Update an existing Jira issue'',
   inputSchema = [
     Type TObject,
     Properties [
       (''issueKey'', [Type TString,
                       Description ''Key of the issue to update (e.g., "PROJ-123")'']),
       (''summary'', [Type TString, Description ''New summary/title'']),
       (''description'', [Type TString, Description ''New description (ADF format recommended)'']),
       (''assignee'', [Type TString,
                       Description ''Account ID of the new assignee (use get_user to find)'']),
       (''status'', [Type TString,
                     Description ''New status name (requires transition ID internally)'']),
       (''priority'', [Type TString, Description ''New priority name''])],
     Required [''issueKey''],
     MinProperties 2]\<rparr>,
  \<lparr>name = ''list_fields'',
   description = ''List all available fields in the Jira instance'',
   inputSchema = [Type TObject, Properties [], Required []]\<rparr>,
  \<lparr>name = ''list_issue_types'',
   description = ''List all available issue types'',
   inputSchema = [Type TObject, Properties [], Required []]\<rparr>,
  \<lparr>name = ''list_link_types'',
   description = ''List all available issue link types'',
   inputSchema = [Type TObject, Properties [], Required []]\<rparr>,
  \<lparr>name = ''get_user'',
   description = ''Get a user's account ID by email address'',
   inputSchema = [
     Type TObject,
     Properties [(''email'', [Type TString, Description ''User's email address''])],
     Required [''email'']]\<rparr>,
  \<lparr>name = ''create_issue'',
   description = ''Create a new Jira issue'',
   inputSchema = [
     Type TObject,
     Properties [
       (''projectKey'', [Type TString, Description ''Project key (e.g., "PROJ")'']),
       (''summary'', [Type TString, Description ''Issue summary/title'']),
       (''issueType'', [Type TString,
                        Description ''Name of the issue type (e.g., "Task", "Bug")'']),
       (''description'', [Type TString,
                          Description ''Detailed description (ADF format recommended)'']),
       (''assignee'', [Type TString,
                       Description ''Account ID of the assignee (use get_user to find)'']),
       (''labels'', [Type TArray, Items [Type TString], Description ''Array of labels'']),
       (''components'', [Type TArray, Items [Type TString],
                         Description ''Array of component names'']),
       (''priority'', [Type TString, Description ''Issue priority name''])],
     Required [''projectKey'', ''summary'', ''issueType'']]\<rparr>,
  \<lparr>name = ''create_issue_link'',
   description = ''Create a link between two issues'',
   inputSchema = [
     Type TObject,
     Properties [
       (''inwardIssueKey'', [Type TString,
                             Description ''Key of the inward issue (e.g., "PROJ-123")'']),
       (''outwardIssueKey'', [Type TString,
                              Description ''Key of the outward issue (e.g., "PROJ-456")'']),
       (''linkType'', [Type TString, Description ''Name of the link type (e.g., "Blocks")''])],
     Required [''inwardIssueKey'', ''outwardIssueKey'', ''linkType'']]\<rparr>]\<close>

text \<open>
  This handler validates \<open>request.params.arguments\<close> as it comes, which may be
  \<open>undefined\<close>. That is a value of no JSON type, which a \<open>type\<close> keyword refuses; the other
  keywords at the top of the registry's schemas constrain objects only.
\<close>

definition compile_arguments :: "schema \<Rightarrow> object option \<Rightarrow> bool" where
  "compile_arguments s arguments =
     (case arguments of
        None \<Rightarrow> list_all (\<lambda>k. case k of Type t \<Rightarrow> False | _ \<Rightarrow> True) s
      | Some a \<Rightarrow> compile s (JObj a))"

text \<open>\<open>this.toolValidators\<close>, filled in the order of the registry.\<close>

definition index_toolValidators :: "string \<Rightarrow> (object option \<Rightarrow> bool) option" where
  "index_toolValidators nm =
     map_option (\<lambda>t. compile_arguments (inputSchema t)) (find_tool (rev index_tools) nm)"

subsection \<open>\<open>handleCreateIssue\<close>\<close>

text \<open>\<open>${e.message}\<close>\<close>

definition message_text :: "js_error \<Rightarrow> string" where
  "message_text e = (case error_message e of None \<Rightarrow> ''undefined'' | Some m \<Rightarrow> m)"

definition handleCreateIssue :: "engine \<Rightarrow> jira \<Rightarrow> object \<Rightarrow> json io" where
  \<open>handleCreateIssue js j args =
     (let projectKey = template js (field args ''projectKey'');
          issueType = template js (field args ''issueType'')
      in
      io_bind
        (io_catch
           (io_bind (remote (GetProject projectKey) (\<lambda>tr. getProject j tr projectKey)) (\<lambda>project.
            io_return (project_id project)))
           (\<lambda>e. io_throw (McpError InvalidParams
                   (''Could not find project with key "'' @ projectKey @ ''".'') None)))
        (\<lambda>found.
        case (if present found then found else None) of
          None \<Rightarrow>
            io_throw (McpError InternalError
              (''Failed to resolve project ID for key "'' @ projectKey @ ''".'') None)
        | Some projectId \<Rightarrow>
            io_bind
              (io_catch
                 (io_bind (remote GetIssueAllTypes (\<lambda>tr. getIssueAllTypes j tr)) (\<lambda>issueTypes.
                    case found_id (find_by_name js issueTypes issueType) of
                      None \<Rightarrow>
                        io_throw (McpError InvalidParams
                          (''Issue type "'' @ issueType @ ''" not found or has no ID.'') None)
                    | Some issueTypeId \<Rightarrow> io_return issueTypeId))
                 (\<lambda>e. io_throw (McpError InternalError
                         (''Failed to resolve issue type ID for "'' @ issueType @ ''": ''
                            @ message_text e) None)))
              (\<lambda>issueTypeId.
              io_bind (resolve_priority js j (field args ''priority'')) (\<lambda>priorityId.
              io_bind (resolve_components js j projectId (field args ''components''))
                (\<lambda>componentObjects.
                let fields = create_fields ''accountId'' args projectId issueTypeId priorityId
                               componentObjects
                in remote (CreateIssue fields) (\<lambda>tr. createIssue j tr fields))))))\<close>

subsection \<open>\<open>handleUpdateIssue\<close>\<close>

definition handle_update_fields :: "object \<Rightarrow> string option \<Rightarrow> object" where
  "handle_update_fields args priorityId =
     (let f1 = assign_if [] ''summary'' (field args ''summary'');
          f2 = assign_if f1 ''description'' (field args ''description'');
          f3 = (case field args ''assignee'' of
                  None \<Rightarrow> f2
                | Some a \<Rightarrow>
                    if truthy (Some a) then assign f2 ''assignee'' (JObj [(''accountId'', a)])
                    else f2)
      in case priorityId of
           None \<Rightarrow> f3
         | Some pid \<Rightarrow> assign f3 ''priority'' (JObj [(''id'', JStr pid)]))"

text \<open>The tail of the method: the transition when one was found, then the read.\<close>

definition handleUpdateIssue_finish :: "jira \<Rightarrow> string \<Rightarrow> string option \<Rightarrow> json io" where
  "handleUpdateIssue_finish j issueKey transitionId =
     io_bind
       (case transitionId of
          None \<Rightarrow> io_return ()
        | Some tid \<Rightarrow> remote (DoTransition issueKey tid) (\<lambda>tr. doTransition j tr issueKey tid))
       (\<lambda>_.
     remote (GetIssue issueKey) (\<lambda>tr. getIssue j tr issueKey))"

definition handleUpdateIssue :: "engine \<Rightarrow> jira \<Rightarrow> object \<Rightarrow> json io" where
  "handleUpdateIssue js j args =
     (let issueKey = template js (field args ''issueKey'') in
      io_bind (resolve_priority js j (field args ''priority'')) (\<lambda>priorityId.
      io_bind (resolve_transition js j issueKey (field args ''status'')) (\<lambda>transitionId.
        let fieldsToUpdate = handle_update_fields args priorityId
        in if fieldsToUpdate \<noteq> [] then
             io_bind (remote (EditIssue issueKey fieldsToUpdate)
                        (\<lambda>tr. editIssue j tr issueKey fieldsToUpdate)) (\<lambda>_.
             handleUpdateIssue_finish j issueKey transitionId)
           else if transitionId = None then
             io_return (success_message
               (''No valid fields or status transition provided for issue '' @ issueKey
                  @ ''. No update performed.''))
           else handleUpdateIssue_finish j issueKey transitionId)))"

subsection \<open>The request handler\<close>

definition index_run_tool :: "engine \<Rightarrow> jira \<Rightarrow> string \<Rightarrow> object \<Rightarrow> completion io" where
  \<open>index_run_tool js j toolName args =
     (if toolName = ''delete_issue'' then delete_issue js j args
      else if toolName = ''get_issues'' then get_issues js j args
      else if toolName = ''update_issue'' then
        io_bind (handleUpdateIssue js j args) (\<lambda>r. io_return (Result r))
      else if toolName = ''list_fields'' then list_fields j args
      else if toolName = ''list_issue_types'' then list_issue_types j args
      else if toolName = ''list_link_types'' then list_link_types j args
      else if toolName = ''get_user'' then get_user js j args
      else if toolName = ''create_issue'' then
        io_bind (handleCreateIssue js j args) (\<lambda>r. io_return (Result r))
      else if toolName = ''create_issue_link'' then create_issue_link js j args
      else io_throw (McpError MethodNotFound
             (''Handler for tool "'' @ toolName @ ''" not implemented.'') None))\<close>

text \<open>
  The handler that \<open>setupToolHandlers\<close> registers for \<open>CallToolRequestSchema\<close>. A handler
  that is reached with \<open>undefined\<close> arguments reads every property as \<open>undefined\<close>, like
  the empty object; no schema of this registry lets \<open>undefined\<close> pass.
\<close>

definition index_callToolHandler ::
  "(string \<Rightarrow> object option \<Rightarrow> string) \<Rightarrow> engine \<Rightarrow> jira \<Rightarrow> string \<Rightarrow> object option
     \<Rightarrow> (js_error + reply) \<times> call list" where
  \<open>index_callToolHandler errorsText js j toolName arguments =
     (case find_tool index_tools toolName of
        None \<Rightarrow>
          (Inl (McpError MethodNotFound (''Tool "'' @ toolName @ ''" not found.'') None), [])
      | Some toolDefinition \<Rightarrow>
          if (case index_toolValidators toolName of
                None \<Rightarrow> False
              | Some validator \<Rightarrow> \<not> validator arguments)
          then (Inl (McpError InvalidParams
                  (''Invalid arguments for tool '' @ toolName @ '': ''
                     @ errorsText toolName arguments) None), [])
          else
            (case index_run_tool js j toolName (case arguments of None \<Rightarrow> [] | Some a \<Rightarrow> a) [] of
               (Inl error, tr) \<Rightarrow> (Inl (jira_api_error error), tr)
             | (Inr (Result result), tr) \<Rightarrow> (Inr (Content result), tr)
             | (Inr (Returned result), tr) \<Rightarrow> (Inr (Bare result), tr)))\<close>

section \<open>Example inputs\<close>

text \<open>A Jira in which every call succeeds, and the errors used to make single calls fail.\<close>

definition quiet_jira :: jira where
  "quiet_jira = \<lparr>
     deleteIssue = (\<lambda>tr k. Inr ()),
     getBoard = (\<lambda>tr b. Inr JNull),
     getConfiguration = (\<lambda>tr b. Inr (BoardConfig None)),
     getFilter = (\<lambda>tr f. Inr (JiraFilter None)),
     searchForIssuesUsingJql = (\<lambda>tr q. Inr (JObj [(''total'', JNum 0), (''issues'', JArr [])])),
     getPriorities =
       (\<lambda>tr. Inr [Named (Some ''1'') (Some ''High''), Named (Some ''2'') (Some ''Low'')]),
     getTransitions = (\<lambda>tr k. Inr (Transitions (Some
        [Transition (Some ''21'') (Some (Named (Some ''3'') (Some ''In Progress''))),
         Transition (Some ''31'') (Some (Named (Some ''4'') (Some ''Done'')))]))),
     editIssue = (\<lambda>tr k f. Inr ()),
     doTransition = (\<lambda>tr k t. Inr ()),
     getIssue = (\<lambda>tr k. Inr (JObj [(''key'', JStr k)])),
     getFields = (\<lambda>tr. Inr (JArr [])),
     getIssueAllTypes =
       (\<lambda>tr. Inr [Named (Some ''10001'') (Some ''Task''), Named (Some ''10002'') (Some ''Bug'')]),
     getIssueLinkTypes = (\<lambda>tr. Inr (JArr [])),
     findUsers = (\<lambda>tr q. Inr []),
     getProject = (\<lambda>tr k. Inr (Project (Some ''10000''))),
     getProjectComponents = (\<lambda>tr p. Inr []),
     createIssue = (\<lambda>tr f. Inr (JObj [(''id'', JStr ''123''), (''key'', JStr ''TEST-123'')])),
     linkIssues = (\<lambda>tr t a b. Inr ())\<rparr>"

text \<open>
  An engine for the examples. Its functions agree with JavaScript's on the values of the
  examples: ASCII text, short runs of digits, integers.
\<close>

definition lower_char :: "char \<Rightarrow> char" where
  "lower_char c =
     (case map_of (zip ''ABCDEFGHIJKLMNOPQRSTUVWXYZ'' ''abcdefghijklmnopqrstuvwxyz'') c of
        Some d \<Rightarrow> d
      | None \<Rightarrow> c)"

definition digit_val :: "char \<Rightarrow> nat" where
  "digit_val c = (case map_of (zip ''0123456789'' [0 ..< 10]) c of Some d \<Rightarrow> d | None \<Rightarrow> 0)"

definition ascii_engine :: engine where
  "ascii_engine = \<lparr>
     toLowerCase = map lower_char,
     parseInt = (\<lambda>s. if s \<noteq> [] \<and> list_all is_digit s
                     then Some (real (foldl (\<lambda>acc c. 10 * acc + digit_val c) 0 s)) else None),
     numberText = (\<lambda>x. string_of_int \<lfloor>x\<rfloor>)\<rparr>"

definition not_found_error :: js_error where
  "not_found_error =
     JiraError (Some 404) (Some [''Issue does not exist'']) (Some ''Request failed'')"

definition no_errorsText :: "string \<Rightarrow> object \<Rightarrow> string" where
  "no_errorsText nm args = ''data is not valid''"

definition index_no_errorsText :: "string \<Rightarrow> object option \<Rightarrow> string" where
  "index_no_errorsText nm arguments = ''data is not valid''"

definition epic_args :: object where
  "epic_args = [(''projectKey'', JStr ''TEST''), (''summary'', JStr ''New test issue''),
                (''issueType'', JStr ''Epic'')]"

definition closed_args :: object where
  "closed_args = [(''issueKey'', JStr ''T-1''), (''status'', JStr ''Closed'')]"

definition done_args :: object where
  "done_args = [(''issueKey'', JStr ''T-1''), (''summary'', JStr ''New title''),
                (''status'', JStr ''done'')]"

definition bad_request_error :: js_error where
  "bad_request_error =
     JiraError (Some 400) (Some [''Field summary cannot be set'']) (Some ''Request failed'')"

text \<open>The calls of the log that are the create-issue mutation.\<close>

fun is_createIssue :: "call \<Rightarrow> bool" where
  "is_createIssue (CreateIssue payload) = True"
| "is_createIssue c = False"

definition urgent_args :: object where
  "urgent_args = [(''projectKey'', JStr ''TEST''), (''summary'', JStr ''New test issue''),
                  (''issueType'', JStr ''task''), (''priority'', JStr ''Urgent'')]"

definition required_field_error :: js_error where
  "required_field_error =
     JiraError (Some 400) (Some [''Field Sprint is required'']) (Some ''Request failed'')"

section \<open>Basic facts\<close>

lemma find_rev_distinct:
  "distinct (map f xs) \<Longrightarrow> find (\<lambda>x. f x = k) (rev xs) = find (\<lambda>x. f x = k) xs"
proof (induction xs)
  case Nil
  then show ?case by simp
next
  case (Cons x xs)
  have app: "\<And>P ys zs. find P (ys @ zs) = (case find P ys of None \<Rightarrow> find P zs | Some y \<Rightarrow> Some y)"
    by (induct_tac ys) auto
  show ?case
  proof (cases "f x = k")
    case True
    with Cons.prems have "find (\<lambda>x. f x = k) xs = None"
      by (auto simp: find_None_iff image_iff)
    with Cons True show ?thesis by (simp add: app)
  next
    case False
    with Cons show ?thesis by (simp add: app split: option.splits)
  qed
qed

lemma tool_names:
  "map name tools = [''delete_issue'', ''get_issues'', ''get_assigned_issues'', ''update_issue'',
     ''list_fields'', ''list_issue_types'', ''list_link_types'', ''get_user'', ''create_issue'',
     ''create_issue_link'', ''get_issue'']"
  by (simp add: tools_def)

lemma tool_names_distinct: "distinct (map name tools)"
  unfolding tool_names by simp

lemma toolValidators_find:
  "toolValidators tools nm = map_option (\<lambda>t. compile (inputSchema t)) (find_tool tools nm)"
  by (simp add: toolValidators_def find_tool_def find_rev_distinct [OF tool_names_distinct])

text \<open>Past the two checks, the request handler is the switch inside its try block.\<close>

lemma callToolHandler_run:
  assumes "find_tool tools nm = Some t"
    and "compile (inputSchema t) (JObj (case arguments of None \<Rightarrow> [] | Some a \<Rightarrow> a))"
  shows "callToolHandler et js j nm arguments =
     (case run_tool js j nm (case arguments of None \<Rightarrow> [] | Some a \<Rightarrow> a) [] of
        (Inl error, tr) \<Rightarrow> (Inl (jira_api_error error), tr)
      | (Inr (Result result), tr) \<Rightarrow> (Inr (Content result), tr)
      | (Inr (Returned result), tr) \<Rightarrow> (Inr (Bare result), tr))"
  using assms by (simp add: callToolHandler_def toolValidators_find Let_def)

lemma string_of_int_404: "string_of_int 404 = ''404''"
  by code_simp

lemma find_tool_get_issue: "find_tool tools ''get_issue'' = Some (last tools)"
  by (simp add: find_tool_def tools_def)

lemma get_issue_key_valid:
  "compile (inputSchema (last tools)) (JObj [(''issueKey'', JStr ''T-1'')])"
  by (simp add: tools_def compile_def)

lemma get_issue_not_found_run:
  "run_tool ascii_engine (quiet_jira\<lparr>getIssue := \<lambda>tr k. Inl not_found_error\<rparr>) ''get_issue''
     [(''issueKey'', JStr ''T-1'')] [] = (Inl not_found_error, [GetIssue ''T-1''])"
  by (simp add: run_tool_def get_issue_def io_bind_def remote_def field_def template_def
      quiet_jira_def)

lemma find_tool_unknown: "nm \<notin> set (map name tools) \<Longrightarrow> find_tool tools nm = None"
  by (auto simp: find_tool_def find_None_iff)

lemma find_distinct_Some:
  "distinct (map f xs) \<Longrightarrow> x \<in> set xs \<Longrightarrow> find (\<lambda>y. f y = f x) xs = Some x"
  by (induction xs) (auto simp: image_iff)

lemma find_tool_known: "t \<in> set tools \<Longrightarrow> find_tool tools (name t) = Some t"
  unfolding find_tool_def by (rule find_distinct_Some [OF tool_names_distinct])

text \<open>Arguments that the tool's validator refuses end the call before the switch.\<close>

lemma callToolHandler_invalid:
  assumes "find_tool tools nm = Some t"
    and "\<not> compile (inputSchema t) (JObj (case arguments of None \<Rightarrow> [] | Some a \<Rightarrow> a))"
  shows "callToolHandler et js j nm arguments =
     (Inl (McpError InvalidParams
        (''Invalid arguments for tool '' @ nm @ '': ''
           @ et nm (case arguments of None \<Rightarrow> [] | Some a \<Rightarrow> a)) None), [])"
  using assms by (simp add: callToolHandler_def toolValidators_find Let_def)

lemma additional_properties_false:
  "AdditionalProperties False \<in> set s \<Longrightarrow> k \<in> fst ` set kvs \<Longrightarrow> k \<notin> set ds
     \<Longrightarrow> \<not> all_hold ds s (JObj kvs)"
  by (induction s) (force simp: list_all_iff)+

lemma tools_closed: "t \<in> set tools \<Longrightarrow> AdditionalProperties False \<in> set (inputSchema t)"
  by (auto simp: tools_def)

lemma get_issue_tool: "last tools \<in> set tools" "name (last tools) = ''get_issue''"
  by (simp_all add: tools_def)

lemma get_issue_needs_key: "\<not> compile (inputSchema (last tools)) (JObj [])"
  by (simp add: tools_def compile_def)

lemma launch_unknown: "''launch'' \<notin> set (map name tools)"
  unfolding tool_names by simp

lemma update_issue_tool: "tools ! 3 \<in> set tools" "name (tools ! 3) = ''update_issue''"
  by (simp_all add: tools_def)

lemma update_issue_declared:
  "declared (inputSchema (tools ! 3)) =
     [''issueKey'', ''summary'', ''description'', ''assignee'', ''status'', ''priority'']"
  by (simp add: tools_def)

lemma create_issue_accepts_labels:
  "name (tools ! 8) = ''create_issue''"
  "compile (inputSchema (tools ! 8))
     (JObj [(''projectKey'', JStr ''TEST''), (''summary'', JStr ''s''), (''issueType'', JStr ''Task''),
            (''labels'', JArr [JStr ''ui''])])"
  by (simp_all add: tools_def compile_def)

lemma callToolHandler_log:
  assumes "t \<in> set tools" and "name t = nm" and "compile (inputSchema t) (JObj args)"
  shows "snd (callToolHandler et js j nm (Some args)) = snd (run_tool js j nm args [])"
proof -
  have "find_tool tools nm = Some t"
    using find_tool_known assms by blast
  then show ?thesis
    using callToolHandler_run [of nm t "Some args" et js j] assms(3)
    by (simp split: prod.splits sum.splits completion.splits)
qed

lemma string_of_int_InvalidParams: "string_of_int (- 32602) = ''-32602''"
  by (simp add: string_of_int_def string_of_nat.simps digit_char_def)

lemma string_of_int_500: "string_of_int 500 = ''500''"
  by (simp add: string_of_int_def string_of_nat.simps digit_char_def)

lemmas io_defs = io_bind_def io_return_def io_throw_def io_catch_def remote_def

lemma get_assigned_issues_tool:
  "tools ! 2 \<in> set tools" "name (tools ! 2) = ''get_assigned_issues''"
  by (simp_all add: tools_def)

lemma get_issues_tool: "tools ! 1 \<in> set tools" "name (tools ! 1) = ''get_issues''"
  by (simp_all add: tools_def)

lemma find_tool_get_issues: "find_tool tools ''get_issues'' = Some (tools ! 1)"
  using find_tool_known [OF get_issues_tool(1)] unfolding get_issues_tool(2) .

lemma assigned_empty_additional_valid:
  "compile (inputSchema (tools ! 2))
     (JObj [(''accountId'', JStr ''user-123''), (''additionalJql'', JStr '''')])"
  by (simp add: tools_def compile_def)

lemma assigned_all_additional_valid:
  \<open>compile (inputSchema (tools ! 2))
     (JObj [(''accountId'', JStr ''user-123''), (''status'', JStr ''all''),
            (''additionalJql'', JStr ''project = "TEST"'')])\<close>
  by (simp add: tools_def compile_def)

lemma issues_empty_project_valid:
  "compile (inputSchema (tools ! 1)) (JObj [(''projectKey'', JStr '''')])"
  by (simp add: tools_def compile_def)

lemma issues_empty_jql_valid:
  "compile (inputSchema (tools ! 1)) (JObj [(''projectKey'', JStr ''TEST''), (''jql'', JStr '''')])"
  by (simp add: tools_def compile_def)

lemma issues_project_jql_valid:
  "compile (inputSchema (tools ! 1))
     (JObj [(''projectKey'', JStr ''TEST''), (''jql'', JStr ''status = Done'')])"
  by (simp add: tools_def compile_def)

lemma index_tool_names:
  "map name index_tools = [''delete_issue'', ''get_issues'', ''update_issue'', ''list_fields'',
     ''list_issue_types'', ''list_link_types'', ''get_user'', ''create_issue'',
     ''create_issue_link'']"
  by (simp add: index_tools_def)

lemma index_tool_names_distinct: "distinct (map name index_tools)"
  unfolding index_tool_names by simp

lemma index_toolValidators_find:
  "index_toolValidators nm =
     map_option (\<lambda>t. compile_arguments (inputSchema t)) (find_tool index_tools nm)"
  by (simp add: index_toolValidators_def find_tool_def
      find_rev_distinct [OF index_tool_names_distinct])

lemma find_index_tool_known: "t \<in> set index_tools \<Longrightarrow> find_tool index_tools (name t) = Some t"
  unfolding find_tool_def by (rule find_distinct_Some [OF index_tool_names_distinct])

lemma index_callToolHandler_invalid:
  assumes "find_tool index_tools nm = Some t"
    and "\<not> compile_arguments (inputSchema t) arguments"
  shows "index_callToolHandler et js j nm arguments =
     (Inl (McpError InvalidParams
        (''Invalid arguments for tool '' @ nm @ '': '' @ et nm arguments) None), [])"
  using assms by (simp add: index_callToolHandler_def index_toolValidators_find)

lemma index_callToolHandler_run:
  assumes "find_tool index_tools nm = Some t"
    and "compile_arguments (inputSchema t) arguments"
  shows "index_callToolHandler et js j nm arguments =
     (case index_run_tool js j nm (case arguments of None \<Rightarrow> [] | Some a \<Rightarrow> a) [] of
        (Inl error, tr) \<Rightarrow> (Inl (jira_api_error error), tr)
      | (Inr (Result result), tr) \<Rightarrow> (Inr (Content result), tr)
      | (Inr (Returned result), tr) \<Rightarrow> (Inr (Bare result), tr))"
  using assms by (simp add: index_callToolHandler_def index_toolValidators_find)

lemma index_get_issues_tool:
  "index_tools ! 1 \<in> set index_tools" "name (index_tools ! 1) = ''get_issues''"
  by (simp_all add: index_tools_def)

lemma find_index_tool_get_issues: "find_tool index_tools ''get_issues'' = Some (index_tools ! 1)"
  using find_index_tool_known [OF index_get_issues_tool(1)] unfolding index_get_issues_tool(2) .

lemma index_get_issues_needs_key:
  "\<not> compile_arguments (inputSchema (index_tools ! 1)) (Some [])"
  by (simp add: index_tools_def compile_arguments_def compile_def)

lemma get_issues_empty_valid: "compile (inputSchema (tools ! 1)) (JObj [])"
  by (simp add: tools_def compile_def)

lemma string_of_int_InternalError: "string_of_int (- 32603) = ''-32603''"
  by (simp add: string_of_int_def string_of_nat.simps digit_char_def)

lemma find_by_name_no_match:
  "\<forall>x \<in> set xs. \<forall>m. name_of x = Some m \<longrightarrow> toLowerCase js m \<noteq> toLowerCase js n
     \<Longrightarrow> find_by_name js xs n = None"
  by (auto simp: find_by_name_def find_None_iff split: option.splits)

lemma create_issue_tool: "tools ! 8 \<in> set tools" "name (tools ! 8) = ''create_issue''"
  by (simp_all add: tools_def)

lemma index_create_issue_tool:
  "index_tools ! 7 \<in> set index_tools" "name (index_tools ! 7) = ''create_issue''"
  by (simp_all add: index_tools_def)

lemma epic_args_valid:
  "compile (inputSchema (tools ! 8)) (JObj epic_args)"
  "compile (inputSchema (index_tools ! 7)) (JObj epic_args)"
  by (simp_all add: tools_def index_tools_def compile_def epic_args_def)

lemma epic_is_no_type:
  "\<forall>x \<in> set [Named (Some ''10001'') (Some ''Task''), Named (Some ''10002'') (Some ''Bug'')].
     \<forall>m. name_of x = Some m \<longrightarrow> toLowerCase ascii_engine m \<noteq> toLowerCase ascii_engine ''Epic''"
  by (simp add: ascii_engine_def lower_char_def)

lemma quiet_project: "getProject quiet_jira [] ''TEST'' = Inr (Project (Some ''10000''))"
  by (simp add: quiet_jira_def)

lemma quiet_types:
  "getIssueAllTypes quiet_jira [GetProject ''TEST''] =
     Inr [Named (Some ''10001'') (Some ''Task''), Named (Some ''10002'') (Some ''Bug'')]"
  by (simp add: quiet_jira_def)

lemma resolve_priority_total:
  "\<exists>pid. resolve_priority js j p tr = (Inr pid, tr @ (if truthy p then [GetPriorities] else []))"
  by (auto simp: resolve_priority_def io_defs split: sum.splits)

lemma resolve_priority_absent: "resolve_priority js j None tr = (Inr None, tr)"
  by (simp add: resolve_priority_def io_defs)

lemma targetTransition_no_match:
  "\<forall>t \<in> set (case transitions_of ts of None \<Rightarrow> [] | Some xs \<Rightarrow> xs).
      \<forall>st m. transition_to t = Some st \<and> name_of st = Some m \<longrightarrow> toLowerCase js m \<noteq> toLowerCase js s
     \<Longrightarrow> targetTransition js ts s = None"
  by (auto simp: targetTransition_def find_None_iff split: option.splits)

lemma resolve_transition_unresolved:
  assumes "(\<exists>e. getTransitions j tr k = Inl e)
     \<or> (\<exists>ts. getTransitions j tr k = Inr ts \<and> targetTransition js ts s = None)"
  shows "resolve_transition js j k (Some (JStr s)) tr =
     (Inr None, tr @ (if s = [] then [] else [GetTransitions k]))"
  using assms by (auto simp: resolve_transition_def io_defs template_def)

lemma resolve_transition_resolved:
  assumes "s \<noteq> []" and "getTransitions j tr k = Inr ts" and "targetTransition js ts s = Some t"
    and "transition_id t = Some tid" and "tid \<noteq> []"
  shows "resolve_transition js j k (Some (JStr s)) tr = (Inr (Some tid), tr @ [GetTransitions k])"
  using assms by (simp add: resolve_transition_def io_defs template_def present_def)

lemma update_issue_tool_args_valid:
  "compile (inputSchema (tools ! 3)) (JObj closed_args)"
  "compile (inputSchema (tools ! 3)) (JObj done_args)"
  by (simp_all add: tools_def compile_def closed_args_def done_args_def)

lemma quiet_transitions:
  "getTransitions quiet_jira tr k = Inr (Transitions (Some
        [Transition (Some ''21'') (Some (Named (Some ''3'') (Some ''In Progress''))),
         Transition (Some ''31'') (Some (Named (Some ''4'') (Some ''Done'')))]))"
  by (simp add: quiet_jira_def)

text \<open>The whole run of the case once the lookups are done and there are fields to update.\<close>

lemma update_issue_run:
  assumes "resolve_priority js j (field args ''priority'') [] = (Inr priorityId, tr1)"
    and "resolve_transition js j (template js (field args ''issueKey'')) (field args ''status'') tr1 =
           (Inr (Some tid), tr2)"
    and "update_fields args priorityId \<noteq> []"
  shows "update_issue js j args [] =
     (let k = template js (field args ''issueKey''); fs = update_fields args priorityId in
      case editIssue j tr2 k fs of
        Inl e \<Rightarrow> (Inl e, tr2 @ [EditIssue k fs])
      | Inr _ \<Rightarrow>
          (case doTransition j (tr2 @ [EditIssue k fs]) k tid of
             Inl e \<Rightarrow> (Inl e, tr2 @ [EditIssue k fs, DoTransition k tid])
           | Inr _ \<Rightarrow>
               (case getIssue j (tr2 @ [EditIssue k fs, DoTransition k tid]) k of
                  Inl e \<Rightarrow> (Inl e, tr2 @ [EditIssue k fs, DoTransition k tid, GetIssue k])
                | Inr r \<Rightarrow>
                    (Inr (Result r), tr2 @ [EditIssue k fs, DoTransition k tid, GetIssue k]))))"
  using assms
  by (simp add: update_issue_def update_issue_finish_def Let_def io_defs split: sum.splits)

lemma string_of_int_400: "string_of_int 400 = ''400''"
  by (simp add: string_of_int_def string_of_nat.simps digit_char_def)

lemma find_tool_update_issue: "find_tool tools ''update_issue'' = Some (tools ! 3)"
  using find_tool_known [OF update_issue_tool(1)] unfolding update_issue_tool(2) .

lemma done_args_fields:
  "field done_args ''issueKey'' = Some (JStr ''T-1'')"
  "field done_args ''priority'' = None"
  "field done_args ''status'' = Some (JStr ''done'')"
  "update_fields done_args None = [(''summary'', JStr ''New title'')]"
  by (simp_all add: field_def done_args_def update_fields_def update_plain_fields_def
      assign_if_def assign_def)

lemma done_target:
  "targetTransition ascii_engine (Transitions (Some
        [Transition (Some ''21'') (Some (Named (Some ''3'') (Some ''In Progress''))),
         Transition (Some ''31'') (Some (Named (Some ''4'') (Some ''Done'')))])) ''done'' =
     Some (Transition (Some ''31'') (Some (Named (Some ''4'') (Some ''Done''))))"
  by (simp add: targetTransition_def ascii_engine_def lower_char_def)

lemma quiet_update_calls:
  "editIssue quiet_jira tr k fs = Inr ()"
  "doTransition quiet_jira tr k tid = Inr ()"
  "getIssue quiet_jira tr k = Inr (JObj [(''key'', JStr k)])"
  by (simp_all add: quiet_jira_def)

lemma failing_edit_calls:
  "getTransitions (quiet_jira\<lparr>editIssue := \<lambda>tr k f. Inl bad_request_error\<rparr>) tr k =
     getTransitions quiet_jira tr k"
  "editIssue (quiet_jira\<lparr>editIssue := \<lambda>tr k f. Inl bad_request_error\<rparr>) tr k fs =
     Inl bad_request_error"
  by simp_all

lemma resolve_priority_unresolved:
  assumes "(\<exists>e. getPriorities j tr = Inl e)
     \<or> (\<exists>ps. getPriorities j tr = Inr ps \<and> find_by_name js ps p = None)"
  shows "resolve_priority js j (Some (JStr p)) tr =
     (Inr None, tr @ (if p = [] then [] else [GetPriorities]))"
  using assms by (auto simp: resolve_priority_def io_defs template_def found_id_def)

lemma resolve_components_total:
  "\<exists>cs. resolve_components js j pid c tr =
     (Inr cs, tr @ (case c of Some (JArr (n # ns)) \<Rightarrow> [GetProjectComponents pid] | _ \<Rightarrow> []))"
proof (cases c)
  case None
  then show ?thesis by (simp add: resolve_components_def io_return_def)
next
  case (Some v)
  show ?thesis
  proof (cases v)
    case (JArr names)
    show ?thesis
    proof (cases names)
      case Nil
      with Some JArr show ?thesis by (simp add: resolve_components_def io_return_def)
    next
      case (Cons n ns)
      with Some JArr show ?thesis
        by (cases "getProjectComponents j tr pid") (simp_all add: resolve_components_def io_defs)
    qed
  qed (simp_all add: Some resolve_components_def io_return_def)
qed

lemma field_assign_other: "k \<noteq> k' \<Longrightarrow> field (assign obj k v) k' = field obj k'"
  by (simp add: field_def assign_def map_add_def split: option.splits)

lemma field_assign_if_other: "k \<noteq> k' \<Longrightarrow> field (assign_if obj k x) k' = field obj k'"
  by (simp add: assign_if_def field_assign_other split: option.splits)

lemma create_fields_no_priority: "field (create_fields key args pid tid None cs) ''priority'' = None"
  unfolding create_fields_def Let_def
  by (simp add: field_assign_other field_assign_if_other split: option.splits,
      simp add: field_def)

lemma find_tool_create_issue: "find_tool tools ''create_issue'' = Some (tools ! 8)"
  using find_tool_known [OF create_issue_tool(1)] unfolding create_issue_tool(2) .

lemma urgent_args_valid: "compile (inputSchema (tools ! 8)) (JObj urgent_args)"
  by (simp add: tools_def compile_def urgent_args_def)

lemma urgent_args_fields:
  "field urgent_args ''projectKey'' = Some (JStr ''TEST'')"
  "field urgent_args ''issueType'' = Some (JStr ''task'')"
  "field urgent_args ''priority'' = Some (JStr ''Urgent'')"
  "field urgent_args ''components'' = None"
  by (simp_all add: field_def urgent_args_def)

lemma task_is_a_type:
  "find_by_name ascii_engine [Named (Some ''10001'') (Some ''Task''), Named (Some ''10002'') (Some ''Bug'')]
     ''task'' = Some (Named (Some ''10001'') (Some ''Task''))"
  by (simp add: find_by_name_def ascii_engine_def lower_char_def)

lemma urgent_is_no_priority:
  "\<forall>x \<in> set [Named (Some ''1'') (Some ''High''), Named (Some ''2'') (Some ''Low'')].
     \<forall>m. name_of x = Some m \<longrightarrow> toLowerCase ascii_engine m \<noteq> toLowerCase ascii_engine ''Urgent''"
  by (simp add: ascii_engine_def lower_char_def)

lemma quiet_priorities:
  "getPriorities quiet_jira tr =
     Inr [Named (Some ''1'') (Some ''High''), Named (Some ''2'') (Some ''Low'')]"
  by (simp add: quiet_jira_def)

lemma quiet_lookups:
  "getProject quiet_jira tr k = Inr (Project (Some ''10000''))"
  "getIssueAllTypes quiet_jira tr =
     Inr [Named (Some ''10001'') (Some ''Task''), Named (Some ''10002'') (Some ''Bug'')]"
  "createIssue quiet_jira tr fs = Inr (JObj [(''id'', JStr ''123''), (''key'', JStr ''TEST-123'')])"
  by (simp_all add: quiet_jira_def)

lemma urgent_fields:
  "create_fields ''name'' urgent_args ''10000'' ''10001'' None [] =
     [(''project'', JObj [(''id'', JStr ''10000'')]), (''summary'', JStr ''New test issue''),
      (''issuetype'', JObj [(''id'', JStr ''10001'')])]"
  by (simp add: create_fields_def assign_if_def assign_def field_def urgent_args_def)

text \<open>The run of \<open>create_issue\<close> on these arguments, for any Jira that answers the lookups so.\<close>

lemma urgent_run:
  assumes "getProject j [] ''TEST'' = Inr (Project (Some ''10000''))"
    and "getIssueAllTypes j [GetProject ''TEST''] =
       Inr [Named (Some ''10001'') (Some ''Task''), Named (Some ''10002'') (Some ''Bug'')]"
    and "getPriorities j [GetProject ''TEST'', GetIssueAllTypes] =
       Inr [Named (Some ''1'') (Some ''High''), Named (Some ''2'') (Some ''Low'')]"
  shows "run_tool ascii_engine j ''create_issue'' urgent_args [] =
     (case createIssue j [GetProject ''TEST'', GetIssueAllTypes, GetPriorities]
             [(''project'', JObj [(''id'', JStr ''10000'')]), (''summary'', JStr ''New test issue''),
              (''issuetype'', JObj [(''id'', JStr ''10001'')])] of
        Inl e \<Rightarrow> Inl e
      | Inr r \<Rightarrow> Inr (Result r),
      [GetProject ''TEST'', GetIssueAllTypes, GetPriorities,
       CreateIssue
         [(''project'', JObj [(''id'', JStr ''10000'')]), (''summary'', JStr ''New test issue''),
          (''issuetype'', JObj [(''id'', JStr ''10001'')])]])"
proof -
  have pr: "resolve_priority ascii_engine j (Some (JStr ''Urgent'')) [GetProject ''TEST'', GetIssueAllTypes] =
      (Inr None, [GetProject ''TEST'', GetIssueAllTypes, GetPriorities])"
    using resolve_priority_unresolved
      [where j = j and tr = "[GetProject ''TEST'', GetIssueAllTypes]" and js = ascii_engine
         and p = "''Urgent''"]
      assms(3) find_by_name_no_match [OF urgent_is_no_priority]
    by simp
  have co: "resolve_components ascii_engine j ''10000'' None tr = (Inr [], tr)" for tr
    by (simp add: resolve_components_def io_return_def)
  show ?thesis
    using assms(1,2)
    by (simp add: run_tool_def create_issue_def Let_def urgent_args_fields template_def
        present_def task_is_a_type found_id_def pr co urgent_fields io_bind_def io_return_def
        remote_def split: sum.splits)
qed

text \<open>
  What becomes of a \<open>create_issue\<close> call whose issue type matches no name: both request
  handlers throw the error of the failed resolution inside their try block and surface
  it as \<open>InternalError\<close>, after the two lookups.
\<close>

lemma create_issue_unknown_type_run:
  assumes "field args ''projectKey'' = Some (JStr pk)"
    and "field args ''issueType'' = Some (JStr it)"
    and "getProject j [] pk = Inr project" and "present (project_id project)"
    and "getIssueAllTypes j [GetProject pk] = Inr types"
    and "\<forall>x \<in> set types. \<forall>m. name_of x = Some m \<longrightarrow> toLowerCase js m \<noteq> toLowerCase js it"
  shows \<open>(\<forall>t. t \<in> set tools \<and> name t = ''create_issue'' \<and> compile (inputSchema t) (JObj args) \<longrightarrow>
       callToolHandler et js j ''create_issue'' (Some args) =
         (Inl (McpError InternalError
            (''Jira API Error (500): MCP error -32602: Issue type "'' @ it @ ''" not found.'')
            (Some (McpError InvalidParams (''Issue type "'' @ it @ ''" not found.'') None))),
          [GetProject pk, GetIssueAllTypes]))
     \<and> (\<forall>t. t \<in> set index_tools \<and> name t = ''create_issue''
            \<and> compile (inputSchema t) (JObj args) \<longrightarrow>
       index_callToolHandler et' js j ''create_issue'' (Some args) =
         (Inl (McpError InternalError
            (''Jira API Error (500): MCP error -32603: Failed to resolve issue type ID for "'' @ it
               @ ''": MCP error -32602: Issue type "'' @ it @ ''" not found or has no ID.'')
            (Some (McpError InternalError
               (''Failed to resolve issue type ID for "'' @ it
                  @ ''": MCP error -32602: Issue type "'' @ it @ ''" not found or has no ID.'')
               None))),
          [GetProject pk, GetIssueAllTypes]))\<close>
proof (intro conjI allI impI)
  from assms(4) obtain pid where pid: "project_id project = Some pid" "pid \<noteq> []"
    by (auto simp: present_def split: option.splits)
  note none = find_by_name_no_match [OF assms(6)]
  fix t
  assume t: "t \<in> set tools \<and> name t = ''create_issue'' \<and> compile (inputSchema t) (JObj args)"
  then have f: "find_tool tools ''create_issue'' = Some t"
    using find_tool_known by force
  show \<open>callToolHandler et js j ''create_issue'' (Some args) =
         (Inl (McpError InternalError
            (''Jira API Error (500): MCP error -32602: Issue type "'' @ it @ ''" not found.'')
            (Some (McpError InvalidParams (''Issue type "'' @ it @ ''" not found.'') None))),
          [GetProject pk, GetIssueAllTypes])\<close>
    using t assms(1-5) none pid
    by (simp add: present_def callToolHandler_run [OF f] run_tool_def create_issue_def Let_def io_defs
        template_def found_id_def jira_api_error_def statusCode_def mcpErrorCode_def
        errorMessage_def string_of_int_500 string_of_int_InvalidParams)
next
  from assms(4) obtain pid where pid: "project_id project = Some pid" "pid \<noteq> []"
    by (auto simp: present_def split: option.splits)
  note none = find_by_name_no_match [OF assms(6)]
  fix t
  assume t: "t \<in> set index_tools \<and> name t = ''create_issue''
     \<and> compile (inputSchema t) (JObj args)"
  then have f: "find_tool index_tools ''create_issue'' = Some t"
    using find_index_tool_known by force
  from t have v: "compile_arguments (inputSchema t) (Some args)"
    by (simp add: compile_arguments_def)
  show \<open>index_callToolHandler et' js j ''create_issue'' (Some args) =
         (Inl (McpError InternalError
            (''Jira API Error (500): MCP error -32603: Failed to resolve issue type ID for "'' @ it
               @ ''": MCP error -32602: Issue type "'' @ it @ ''" not found or has no ID.'')
            (Some (McpError InternalError
               (''Failed to resolve issue type ID for "'' @ it
                  @ ''": MCP error -32602: Issue type "'' @ it @ ''" not found or has no ID.'')
               None))),
          [GetProject pk, GetIssueAllTypes])\<close>
    using assms(1-5) none pid
    by (simp add: present_def index_callToolHandler_run [OF f v] index_run_tool_def handleCreateIssue_def
        Let_def io_defs template_def found_id_def message_text_def jira_api_error_def
        statusCode_def mcpErrorCode_def errorMessage_def string_of_int_500
        string_of_int_InvalidParams string_of_int_InternalError)
qed

section \<open>Claims\<close>

text \<open>
  C9. An error that leaves the switch of a known tool called with valid arguments is
  thrown again as an \<open>McpError\<close> whose code follows the upstream status: 400 gives
  \<open>InvalidParams\<close>, 401, 403 and 404 give \<open>InvalidRequest\<close>, any other status and a missing
  one give \<open>InternalError\<close>. Its message is \<open>Jira API Error (<status>): <text>\<close>, with
  the upstream status (500 when there is none) and the upstream text (the joined
  \<open>errorMessages\<close>, or else the \<open>message\<close>), and the original error is attached.
\<close>

theorem error_reclassified_by_status:
  assumes "find_tool tools nm = Some t"
    and "compile (inputSchema t) (JObj args)"
    and "run_tool js j nm args [] = (Inl e, tr)"
  shows "\<exists>code msg.
     callToolHandler et js j nm (Some args) = (Inl (McpError code msg (Some e)), tr)
     \<and> msg = ''Jira API Error ('' @ string_of_int (statusCode e) @ ''): '' @ errorMessage e
     \<and> (error_status e = Some 400 \<longrightarrow> code = InvalidParams)
     \<and> (error_status e = Some 401 \<or> error_status e = Some 403 \<longrightarrow> code = InvalidRequest)
     \<and> (error_status e = Some 404 \<longrightarrow> code = InvalidRequest)
     \<and> (error_status e \<notin> {Some 400, Some 401, Some 403, Some 404} \<longrightarrow> code = InternalError)
     \<and> (\<forall>s. error_status e = Some s \<and> s \<noteq> 0 \<longrightarrow> statusCode e = s)
     \<and> (error_status e = None \<longrightarrow> statusCode e = 500)
     \<and> (\<forall>ms. error_errorMessages e = Some ms \<and> join '', '' ms \<noteq> [] \<longrightarrow>
            errorMessage e = join '', '' ms)
     \<and> (\<forall>m. (error_errorMessages e = None \<or> error_errorMessages e = Some []) \<and>
            error_message e = Some m \<and> m \<noteq> [] \<longrightarrow> errorMessage e = m)"
proof -
  have run: "callToolHandler et js j nm (Some args) = (Inl (jira_api_error e), tr)"
    using callToolHandler_run [of nm t "Some args" et js j] assms by simp
  have msgs: "\<forall>ms. error_errorMessages e = Some ms \<and> join '', '' ms \<noteq> [] \<longrightarrow>
            errorMessage e = join '', '' ms"
    by (auto simp: errorMessage_def split: list.splits)
  have msg: "\<forall>m. (error_errorMessages e = None \<or> error_errorMessages e = Some []) \<and>
            error_message e = Some m \<and> m \<noteq> [] \<longrightarrow> errorMessage e = m"
    by (auto simp: errorMessage_def split: list.splits)
  show ?thesis
    unfolding run jira_api_error_def
    using msgs msg
    by (auto simp: statusCode_def mcpErrorCode_def split: option.splits)
qed

theorem error_reclassified_by_status_witness:
  "find_tool tools ''get_issue'' = Some (last tools)
   \<and> compile (inputSchema (last tools)) (JObj [(''issueKey'', JStr ''T-1'')])
   \<and> run_tool ascii_engine (quiet_jira\<lparr>getIssue := \<lambda>tr k. Inl not_found_error\<rparr>) ''get_issue''
         [(''issueKey'', JStr ''T-1'')] [] = (Inl not_found_error, [GetIssue ''T-1''])
   \<and> callToolHandler no_errorsText ascii_engine (quiet_jira\<lparr>getIssue := \<lambda>tr k. Inl not_found_error\<rparr>)
         ''get_issue'' (Some [(''issueKey'', JStr ''T-1'')])
       = (Inl (McpError InvalidRequest ''Jira API Error (404): Issue does not exist''
                 (Some not_found_error)), [GetIssue ''T-1''])"
proof -
  have "callToolHandler no_errorsText ascii_engine (quiet_jira\<lparr>getIssue := \<lambda>tr k. Inl not_found_error\<rparr>)
          ''get_issue'' (Some [(''issueKey'', JStr ''T-1'')])
        = (Inl (McpError InvalidRequest ''Jira API Error (404): Issue does not exist''
                  (Some not_found_error)), [GetIssue ''T-1''])"
    using error_reclassified_by_status
            [OF find_tool_get_issue get_issue_key_valid get_issue_not_found_run, of no_errorsText]
    by (auto simp: not_found_error_def statusCode_def errorMessage_def string_of_int_404)
  with find_tool_get_issue get_issue_key_valid get_issue_not_found_run show ?thesis by blast
qed

text \<open>
  C1. A call whose tool name is not in the registry fails with \<open>MethodNotFound\<close>, and a
  call of a registered tool whose arguments its compiled schema refuses fails with
  \<open>InvalidParams\<close> and a message that carries the validator's error text. In both cases
  the log of remote calls is empty.
\<close>

theorem unknown_tool_or_invalid_arguments_rejected:
  \<open>(nm \<notin> set (map name tools) \<longrightarrow>
      callToolHandler et js j nm arguments =
        (Inl (McpError MethodNotFound (''Tool "'' @ nm @ ''" not found.'') None), []))
   \<and> (\<forall>t. t \<in> set tools \<and> name t = nm
          \<and> \<not> compile (inputSchema t) (JObj (case arguments of None \<Rightarrow> [] | Some a \<Rightarrow> a)) \<longrightarrow>
      callToolHandler et js j nm arguments =
        (Inl (McpError InvalidParams
           (''Invalid arguments for tool '' @ nm @ '': ''
              @ et nm (case arguments of None \<Rightarrow> [] | Some a \<Rightarrow> a)) None), []))\<close>
proof (intro conjI impI allI)
  assume "nm \<notin> set (map name tools)"
  then show \<open>callToolHandler et js j nm arguments =
        (Inl (McpError MethodNotFound (''Tool "'' @ nm @ ''" not found.'') None), [])\<close>
    by (simp add: callToolHandler_def find_tool_unknown)
next
  fix t
  assume h: "t \<in> set tools \<and> name t = nm
          \<and> \<not> compile (inputSchema t) (JObj (case arguments of None \<Rightarrow> [] | Some a \<Rightarrow> a))"
  then have "find_tool tools nm = Some t"
    using find_tool_known by blast
  with h show "callToolHandler et js j nm arguments =
        (Inl (McpError InvalidParams
           (''Invalid arguments for tool '' @ nm @ '': ''
              @ et nm (case arguments of None \<Rightarrow> [] | Some a \<Rightarrow> a)) None), [])"
    by (simp add: callToolHandler_invalid)
qed

theorem unknown_tool_or_invalid_arguments_rejected_witness:
  \<open>''launch'' \<notin> set (map name tools)
   \<and> callToolHandler no_errorsText ascii_engine quiet_jira ''launch'' None =
        (Inl (McpError MethodNotFound ''Tool "launch" not found.'' None), [])
   \<and> last tools \<in> set tools \<and> name (last tools) = ''get_issue''
   \<and> \<not> compile (inputSchema (last tools)) (JObj [])
   \<and> callToolHandler no_errorsText ascii_engine quiet_jira ''get_issue'' None =
        (Inl (McpError InvalidParams
           ''Invalid arguments for tool get_issue: data is not valid'' None), [])\<close>
proof -
  have a: \<open>callToolHandler no_errorsText ascii_engine quiet_jira ''launch'' None =
        (Inl (McpError MethodNotFound ''Tool "launch" not found.'' None), [])\<close>
    using unknown_tool_or_invalid_arguments_rejected [of "''launch''" no_errorsText ascii_engine quiet_jira None]
      launch_unknown by simp
  have b: "callToolHandler no_errorsText ascii_engine quiet_jira ''get_issue'' None =
        (Inl (McpError InvalidParams
           ''Invalid arguments for tool get_issue: data is not valid'' None), [])"
    using unknown_tool_or_invalid_arguments_rejected [of "''get_issue''" no_errorsText ascii_engine quiet_jira None]
      get_issue_tool get_issue_needs_key by (auto simp: no_errorsText_def)
  from a b launch_unknown get_issue_tool get_issue_needs_key show ?thesis by blast
qed

text \<open>
  C10. Every schema of the registry sets \<open>additionalProperties: false\<close>: a call of a
  registered tool whose argument object has a property that the tool's schema does not
  declare fails with \<open>InvalidParams\<close>, and the log of remote calls is empty. So
  \<open>update_issue\<close> refuses \<open>labels\<close>, which \<open>create_issue\<close> declares.
\<close>

theorem undeclared_property_rejected:
  assumes "t \<in> set tools"
    and "k \<in> fst ` set args"
    and "k \<notin> set (declared (inputSchema t))"
  shows "callToolHandler et js j (name t) (Some args) =
     (Inl (McpError InvalidParams
        (''Invalid arguments for tool '' @ name t @ '': '' @ et (name t) args) None), [])"
proof -
  have "\<not> compile (inputSchema t) (JObj args)"
    unfolding compile_def
    using additional_properties_false [OF tools_closed [OF assms(1)] assms(2) assms(3)] .
  with find_tool_known [OF assms(1)] show ?thesis
    using callToolHandler_invalid [of "name t" t "Some args" et js j] by simp
qed

theorem undeclared_property_rejected_witness:
  "tools ! 3 \<in> set tools \<and> name (tools ! 3) = ''update_issue''
   \<and> ''labels'' \<in> fst ` set [(''issueKey'', JStr ''T-1''), (''labels'', JArr [JStr ''ui''])]
   \<and> ''labels'' \<notin> set (declared (inputSchema (tools ! 3)))
   \<and> callToolHandler no_errorsText ascii_engine quiet_jira ''update_issue''
        (Some [(''issueKey'', JStr ''T-1''), (''labels'', JArr [JStr ''ui''])]) =
      (Inl (McpError InvalidParams
         ''Invalid arguments for tool update_issue: data is not valid'' None), [])
   \<and> name (tools ! 8) = ''create_issue''
   \<and> compile (inputSchema (tools ! 8))
        (JObj [(''projectKey'', JStr ''TEST''), (''summary'', JStr ''s''),
               (''issueType'', JStr ''Task''), (''labels'', JArr [JStr ''ui''])])"
proof -
  have k: "''labels'' \<in> fst ` set [(''issueKey'', JStr ''T-1''), (''labels'', JArr [JStr ''ui''])]"
    by simp
  have d: "''labels'' \<notin> set (declared (inputSchema (tools ! 3)))"
    unfolding update_issue_declared by simp
  have "callToolHandler no_errorsText ascii_engine quiet_jira ''update_issue''
        (Some [(''issueKey'', JStr ''T-1''), (''labels'', JArr [JStr ''ui''])]) =
      (Inl (McpError InvalidParams
         ''Invalid arguments for tool update_issue: data is not valid'' None), [])"
    using undeclared_property_rejected [OF update_issue_tool(1) k d, of no_errorsText ascii_engine quiet_jira]
    by (simp add: update_issue_tool(2) no_errorsText_def)
  with k d update_issue_tool create_issue_accepts_labels show ?thesis by blast
qed

text \<open>
  C7, as amended. A valid \<open>get_assigned_issues\<close> call with account id \<open>a\<close> makes exactly one
  remote call, the search, with the filter \<open>assignee = "a"\<close> when \<open>status\<close> is \<open>current\<close> or
  absent, \<open>assignee WAS "a"\<close> when it is \<open>past\<close> and
  \<open>(assignee = "a" OR assignee WAS "a")\<close> when it is \<open>all\<close>, followed by \<open> AND (q)\<close> when a
  non-empty \<open>additionalJql\<close> \<open>q\<close> is given. An empty \<open>additionalJql\<close> adds nothing.
\<close>

theorem get_assigned_issues_jql:
  assumes "t \<in> set tools" and "name t = ''get_assigned_issues''"
    and "compile (inputSchema t) (JObj args)"
    and "field args ''accountId'' = Some (JStr a)"
    and "field args ''status'' = map_option JStr st"
    and "field args ''additionalJql'' = map_option JStr q"
  shows \<open>\<exists>base.
     snd (callToolHandler et js j ''get_assigned_issues'' (Some args)) =
       [SearchForIssuesUsingJql
          (base @ (case q of None \<Rightarrow> [] | Some q' \<Rightarrow> if q' = [] then [] else '' AND ('' @ q' @ '')''))]
     \<and> (st = None \<or> st = Some ''current'' \<longrightarrow> base = ''assignee = "'' @ a @ ''"'')
     \<and> (st = Some ''past'' \<longrightarrow> base = ''assignee WAS "'' @ a @ ''"'')
     \<and> (st = Some ''all'' \<longrightarrow>
          base = ''(assignee = "'' @ a @ ''" OR assignee WAS "'' @ a @ ''")'')\<close>
proof -
  have log: "snd (callToolHandler et js j ''get_assigned_issues'' (Some args)) =
      snd (get_assigned_issues js j args [])"
    using callToolHandler_log [OF assms(1-3)] by (simp add: run_tool_def)
  show ?thesis
    unfolding log
    using assms(4-6)
    by (cases q; cases st)
       (auto simp: get_assigned_issues_def Let_def io_bind_def remote_def io_return_def template_def
             split: sum.splits)
qed

theorem get_assigned_issues_jql_witness:
  \<open>tools ! 2 \<in> set tools \<and> name (tools ! 2) = ''get_assigned_issues''
   \<and> compile (inputSchema (tools ! 2))
        (JObj [(''accountId'', JStr ''user-123''), (''status'', JStr ''all''),
               (''additionalJql'', JStr ''project = "TEST"'')])
   \<and> snd (callToolHandler no_errorsText ascii_engine quiet_jira ''get_assigned_issues''
          (Some [(''accountId'', JStr ''user-123''), (''status'', JStr ''all''),
                 (''additionalJql'', JStr ''project = "TEST"'')])) =
       [SearchForIssuesUsingJql
          ''(assignee = "user-123" OR assignee WAS "user-123") AND (project = "TEST")'']\<close>
proof -
  have \<open>snd (callToolHandler no_errorsText ascii_engine quiet_jira ''get_assigned_issues''
          (Some [(''accountId'', JStr ''user-123''), (''status'', JStr ''all''),
                 (''additionalJql'', JStr ''project = "TEST"'')])) =
       [SearchForIssuesUsingJql
          ''(assignee = "user-123" OR assignee WAS "user-123") AND (project = "TEST")'']\<close>
    using get_assigned_issues_jql
      [OF get_assigned_issues_tool assigned_all_additional_valid,
       of "''user-123''" "Some ''all''" \<open>Some ''project = "TEST"''\<close> no_errorsText ascii_engine quiet_jira]
    by (auto simp: field_def)
  with get_assigned_issues_tool assigned_all_additional_valid show ?thesis by blast
qed

text \<open>
  C7 as stated fails for an empty \<open>additionalJql\<close>: the search gets the base filter alone,
  not the base filter followed by \<open> AND ()\<close>.
\<close>

theorem get_assigned_issues_empty_additionalJql_counterexample:
  \<open>compile (inputSchema (tools ! 2))
     (JObj [(''accountId'', JStr ''user-123''), (''additionalJql'', JStr '''')])
   \<and> snd (callToolHandler no_errorsText ascii_engine quiet_jira ''get_assigned_issues''
          (Some [(''accountId'', JStr ''user-123''), (''additionalJql'', JStr '''')])) =
       [SearchForIssuesUsingJql ''assignee = "user-123"'']
   \<and> snd (callToolHandler no_errorsText ascii_engine quiet_jira ''get_assigned_issues''
          (Some [(''accountId'', JStr ''user-123''), (''additionalJql'', JStr '''')])) \<noteq>
       [SearchForIssuesUsingJql (''assignee = "user-123"'' @ '' AND ('' @ '''' @ '')'')]\<close>
proof -
  have \<open>snd (callToolHandler no_errorsText ascii_engine quiet_jira ''get_assigned_issues''
          (Some [(''accountId'', JStr ''user-123''), (''additionalJql'', JStr '''')])) =
       [SearchForIssuesUsingJql ''assignee = "user-123"'']\<close>
    unfolding callToolHandler_log [OF get_assigned_issues_tool assigned_empty_additional_valid]
    by (simp add: run_tool_def get_assigned_issues_def io_defs field_def template_def
        quiet_jira_def)
  with assigned_empty_additional_valid show ?thesis by simp
qed

text \<open>
  C8, as amended. A valid \<open>get_issues\<close> call with a non-empty \<open>projectKey\<close> \<open>p\<close> and no
  \<open>rapidView\<close> makes exactly one remote call, the search, with the filter
  \<open>project = "p"\<close> when \<open>jql\<close> is absent or empty and \<open>project = "p" AND q\<close> when a
  non-empty \<open>jql\<close> \<open>q\<close> is given.
\<close>

theorem get_issues_project_jql:
  assumes "t \<in> set tools" and "name t = ''get_issues''"
    and "compile (inputSchema t) (JObj args)"
    and "field args ''rapidView'' = None"
    and "field args ''projectKey'' = Some (JStr p)" and "p \<noteq> []"
    and "field args ''jql'' = map_option JStr q"
  shows \<open>snd (callToolHandler et js j ''get_issues'' (Some args)) =
       [SearchForIssuesUsingJql
          (''project = "'' @ p @ ''"''
             @ (case q of None \<Rightarrow> [] | Some q' \<Rightarrow> if q' = [] then [] else '' AND '' @ q'))]\<close>
proof -
  have log: "snd (callToolHandler et js j ''get_issues'' (Some args)) = snd (get_issues js j args [])"
    using callToolHandler_log [OF assms(1-3)] by (simp add: run_tool_def)
  show ?thesis
    unfolding log
    using assms(4-7)
    by (cases q)
       (auto simp: get_issues_def get_issues_jql_def Let_def io_bind_def remote_def io_return_def
             template_def split: sum.splits)
qed

theorem get_issues_project_jql_witness:
  \<open>tools ! 1 \<in> set tools \<and> name (tools ! 1) = ''get_issues''
   \<and> compile (inputSchema (tools ! 1))
        (JObj [(''projectKey'', JStr ''TEST''), (''jql'', JStr ''status = Done'')])
   \<and> ''TEST'' \<noteq> []
   \<and> snd (callToolHandler no_errorsText ascii_engine quiet_jira ''get_issues''
          (Some [(''projectKey'', JStr ''TEST''), (''jql'', JStr ''status = Done'')])) =
       [SearchForIssuesUsingJql ''project = "TEST" AND status = Done'']\<close>
proof -
  have \<open>snd (callToolHandler no_errorsText ascii_engine quiet_jira ''get_issues''
          (Some [(''projectKey'', JStr ''TEST''), (''jql'', JStr ''status = Done'')])) =
       [SearchForIssuesUsingJql ''project = "TEST" AND status = Done'']\<close>
    using get_issues_project_jql
      [OF get_issues_tool issues_project_jql_valid,
       of "''TEST''" "Some ''status = Done''" no_errorsText ascii_engine quiet_jira]
    by (auto simp: field_def)
  with get_issues_tool issues_project_jql_valid show ?thesis by simp
qed

text \<open>
  C8 as stated fails for empty strings: with an empty \<open>projectKey\<close> the call fails before
  any search, and with an empty \<open>jql\<close> the filter is \<open>project = "p"\<close> without \<open> AND \<close>.
\<close>

theorem get_issues_empty_strings_counterexample:
  \<open>compile (inputSchema (tools ! 1)) (JObj [(''projectKey'', JStr '''')])
   \<and> callToolHandler no_errorsText ascii_engine quiet_jira ''get_issues'' (Some [(''projectKey'', JStr '''')]) =
       (Inl (McpError InternalError
          ''Jira API Error (500): MCP error -32602: Either projectKey or rapidView must be provided''
          (Some (McpError InvalidParams ''Either projectKey or rapidView must be provided'' None))),
        [])
   \<and> compile (inputSchema (tools ! 1)) (JObj [(''projectKey'', JStr ''TEST''), (''jql'', JStr '''')])
   \<and> snd (callToolHandler no_errorsText ascii_engine quiet_jira ''get_issues''
          (Some [(''projectKey'', JStr ''TEST''), (''jql'', JStr '''')])) =
       [SearchForIssuesUsingJql ''project = "TEST"'']
   \<and> snd (callToolHandler no_errorsText ascii_engine quiet_jira ''get_issues''
          (Some [(''projectKey'', JStr ''TEST''), (''jql'', JStr '''')])) \<noteq>
       [SearchForIssuesUsingJql (''project = "TEST"'' @ '' AND '' @ '''')]\<close>
proof -
  have a: \<open>callToolHandler no_errorsText ascii_engine quiet_jira ''get_issues'' (Some [(''projectKey'', JStr '''')]) =
       (Inl (McpError InternalError
          ''Jira API Error (500): MCP error -32602: Either projectKey or rapidView must be provided''
          (Some (McpError InvalidParams ''Either projectKey or rapidView must be provided'' None))),
        [])\<close>
    using issues_empty_project_valid
    by (simp add: callToolHandler_run [OF find_tool_get_issues] run_tool_def get_issues_def
        get_issues_jql_def io_defs field_def jira_api_error_def statusCode_def mcpErrorCode_def
        errorMessage_def string_of_int_500 string_of_int_InvalidParams)
  have b: \<open>snd (callToolHandler no_errorsText ascii_engine quiet_jira ''get_issues''
          (Some [(''projectKey'', JStr ''TEST''), (''jql'', JStr '''')])) =
       [SearchForIssuesUsingJql ''project = "TEST"'']\<close>
    unfolding callToolHandler_log [OF get_issues_tool issues_empty_jql_valid]
    by (simp add: run_tool_def get_issues_def get_issues_jql_def io_defs field_def template_def
        quiet_jira_def)
  from a b issues_empty_project_valid issues_empty_jql_valid show ?thesis by simp
qed

text \<open>
  C3. A \<open>get_issues\<close> call with neither \<open>projectKey\<close> nor \<open>rapidView\<close> is meant to fail
  with \<open>InvalidParams\<close> before any remote call. The handler of \<open>server.ts\<close> makes no
  remote call, but its schema lets the arguments pass, and the \<open>InvalidParams\<close> error
  that the switch then throws is caught by the handler's own catch block and thrown again
  as \<open>InternalError\<close>. The handler of \<open>index.ts\<close>, whose schema has the \<open>anyOf\<close>, does
  fail with \<open>InvalidParams\<close>. Both at the empty argument object:
\<close>

theorem get_issues_without_project_or_board_is_internal_error:
  \<open>callToolHandler no_errorsText ascii_engine quiet_jira ''get_issues'' (Some []) =
     (Inl (McpError InternalError
        ''Jira API Error (500): MCP error -32602: Either projectKey or rapidView must be provided''
        (Some (McpError InvalidParams ''Either projectKey or rapidView must be provided'' None))),
      [])
   \<and> index_callToolHandler index_no_errorsText ascii_engine quiet_jira ''get_issues'' (Some []) =
     (Inl (McpError InvalidParams
        ''Invalid arguments for tool get_issues: data is not valid'' None), [])\<close>
proof -
  have a: \<open>callToolHandler no_errorsText ascii_engine quiet_jira ''get_issues'' (Some []) =
     (Inl (McpError InternalError
        ''Jira API Error (500): MCP error -32602: Either projectKey or rapidView must be provided''
        (Some (McpError InvalidParams ''Either projectKey or rapidView must be provided'' None))),
      [])\<close>
    using get_issues_empty_valid
    by (simp add: callToolHandler_run [OF find_tool_get_issues] run_tool_def get_issues_def
        get_issues_jql_def io_defs field_def jira_api_error_def statusCode_def mcpErrorCode_def
        errorMessage_def string_of_int_500 string_of_int_InvalidParams)
  have b: "index_callToolHandler index_no_errorsText ascii_engine quiet_jira ''get_issues'' (Some []) =
     (Inl (McpError InvalidParams
        ''Invalid arguments for tool get_issues: data is not valid'' None), [])"
    using index_callToolHandler_invalid
            [OF find_index_tool_get_issues index_get_issues_needs_key]
    by (simp add: index_no_errorsText_def)
  from a b show ?thesis by simp
qed

text \<open>
  C2. A \<open>create_issue\<close> call whose \<open>issueType\<close> matches, ignoring case, the name of none of
  the issue types that Jira returns is meant to fail with the error of the failed
  resolution, which both handlers throw as \<open>InvalidParams\<close>, before the create-issue
  mutation. The mutation is indeed never called: the log ends at the issue type lookup.
  But the thrown \<open>InvalidParams\<close> error does not reach the caller. In \<open>server.ts\<close> the catch
  block of the request handler throws it again as \<open>InternalError\<close>; in \<open>index.ts\<close>
  \<open>handleCreateIssue\<close> catches its own throw and wraps it in an \<open>InternalError\<close>, which
  the catch block of the request handler wraps once more. Both at the issue type
  \<open>Epic\<close>, where Jira has \<open>Task\<close> and \<open>Bug\<close>:
\<close>

theorem create_issue_unknown_type_is_internal_error:
  \<open>getIssueAllTypes quiet_jira [GetProject ''TEST''] =
     Inr [Named (Some ''10001'') (Some ''Task''), Named (Some ''10002'') (Some ''Bug'')]
   \<and> find_by_name ascii_engine
        [Named (Some ''10001'') (Some ''Task''), Named (Some ''10002'') (Some ''Bug'')] ''Epic'' = None
   \<and> callToolHandler no_errorsText ascii_engine quiet_jira ''create_issue'' (Some epic_args) =
        (Inl (McpError InternalError
           ''Jira API Error (500): MCP error -32602: Issue type "Epic" not found.''
           (Some (McpError InvalidParams ''Issue type "Epic" not found.'' None))),
         [GetProject ''TEST'', GetIssueAllTypes])
   \<and> index_callToolHandler index_no_errorsText ascii_engine quiet_jira ''create_issue''
        (Some epic_args) =
        (Inl (McpError InternalError
           ''Jira API Error (500): MCP error -32603: Failed to resolve issue type ID for "Epic": MCP error -32602: Issue type "Epic" not found or has no ID.''
           (Some (McpError InternalError
              ''Failed to resolve issue type ID for "Epic": MCP error -32602: Issue type "Epic" not found or has no ID.''
              None))),
         [GetProject ''TEST'', GetIssueAllTypes])\<close>
proof -
  have f: "field epic_args ''projectKey'' = Some (JStr ''TEST'')"
    "field epic_args ''issueType'' = Some (JStr ''Epic'')"
    by (simp_all add: field_def epic_args_def)
  have p: "present (project_id (Project (Some ''10000'')))"
    by (simp add: present_def)
  note th = create_issue_unknown_type_run
    [OF f quiet_project p quiet_types epic_is_no_type,
     where et = no_errorsText and et' = index_no_errorsText]
  have a: \<open>callToolHandler no_errorsText ascii_engine quiet_jira ''create_issue'' (Some epic_args) =
        (Inl (McpError InternalError
           ''Jira API Error (500): MCP error -32602: Issue type "Epic" not found.''
           (Some (McpError InvalidParams ''Issue type "Epic" not found.'' None))),
         [GetProject ''TEST'', GetIssueAllTypes])\<close>
    using th create_issue_tool epic_args_valid(1) by auto
  have b: \<open>index_callToolHandler index_no_errorsText ascii_engine quiet_jira ''create_issue''
        (Some epic_args) =
        (Inl (McpError InternalError
           ''Jira API Error (500): MCP error -32603: Failed to resolve issue type ID for "Epic": MCP error -32602: Issue type "Epic" not found or has no ID.''
           (Some (McpError InternalError
              ''Failed to resolve issue type ID for "Epic": MCP error -32602: Issue type "Epic" not found or has no ID.''
              None))),
         [GetProject ''TEST'', GetIssueAllTypes])\<close>
    using th index_create_issue_tool epic_args_valid(2) by auto
  from a b quiet_types find_by_name_no_match [OF epic_is_no_type]
  show ?thesis by simp
qed

text \<open>
  C6. A valid \<open>update_issue\<close> call that gives, besides \<open>issueKey\<close>, only a \<open>status\<close>, where
  the status does not resolve to a transition (the transitions lookup throws, or no
  transition leads to a status of that name, ignoring case), returns the object
  \<open>{success: true, message: "No valid fields or status transition provided for issue K.
  No update performed."}\<close>, \<open>K\<close> the issue key. Its log holds at most the transitions lookup: neither \<open>editIssue\<close> nor
  \<open>doTransition\<close> is called.
\<close>

theorem update_issue_unresolved_status_is_noop:
  assumes "t \<in> set tools" and "name t = ''update_issue''"
    and "compile (inputSchema t) (JObj args)"
    and "field args ''issueKey'' = Some (JStr k)"
    and "field args ''summary'' = None" and "field args ''description'' = None"
    and "field args ''assignee'' = None" and "field args ''priority'' = None"
    and "field args ''status'' = Some (JStr s)"
    and "(\<exists>e. getTransitions j [] k = Inl e)
       \<or> (\<exists>ts. getTransitions j [] k = Inr ts
             \<and> (\<forall>t \<in> set (case transitions_of ts of None \<Rightarrow> [] | Some xs \<Rightarrow> xs).
                   \<forall>st m. transition_to t = Some st \<and> name_of st = Some m \<longrightarrow>
                     toLowerCase js m \<noteq> toLowerCase js s))"
  shows "callToolHandler et js j ''update_issue'' (Some args) =
     (Inr (Bare (JObj [(''success'', JBool True),
        (''message'', JStr (''No valid fields or status transition provided for issue '' @ k
           @ ''. No update performed.''))])),
      if s = [] then [] else [GetTransitions k])
   \<and> (\<forall>k' f. EditIssue k' f \<notin> set (snd (callToolHandler et js j ''update_issue'' (Some args))))
   \<and> (\<forall>k' tid. DoTransition k' tid \<notin> set (snd (callToolHandler et js j ''update_issue'' (Some args))))"
proof -
  have f: "find_tool tools ''update_issue'' = Some t"
    using find_tool_known assms(1,2) by force
  have tr: "resolve_transition js j k (Some (JStr s)) [] =
      (Inr None, if s = [] then [] else [GetTransitions k])"
    using resolve_transition_unresolved [of j "[]" k js s] assms(10) targetTransition_no_match
    by auto
  have nf: "update_fields args None = []"
    using assms(5-8)
    by (simp add: update_fields_def update_plain_fields_def assign_if_def)
  have run: "callToolHandler et js j ''update_issue'' (Some args) =
     (Inr (Bare (JObj [(''success'', JBool True),
        (''message'', JStr (''No valid fields or status transition provided for issue '' @ k
           @ ''. No update performed.''))])),
      if s = [] then [] else [GetTransitions k])"
    using assms(3,4,8,9) tr nf
    by (simp add: callToolHandler_run [OF f] run_tool_def update_issue_def Let_def
        resolve_priority_absent io_bind_def io_return_def template_def success_message_def)
  show ?thesis
    unfolding run by simp
qed

theorem update_issue_unresolved_status_is_noop_witness:
  "tools ! 3 \<in> set tools \<and> name (tools ! 3) = ''update_issue''
   \<and> compile (inputSchema (tools ! 3)) (JObj closed_args)
   \<and> field closed_args ''issueKey'' = Some (JStr ''T-1'')
   \<and> field closed_args ''summary'' = None \<and> field closed_args ''description'' = None
   \<and> field closed_args ''assignee'' = None \<and> field closed_args ''priority'' = None
   \<and> field closed_args ''status'' = Some (JStr ''Closed'')
   \<and> (\<exists>ts. getTransitions quiet_jira [] ''T-1'' = Inr ts
         \<and> (\<forall>t \<in> set (case transitions_of ts of None \<Rightarrow> [] | Some xs \<Rightarrow> xs).
               \<forall>st m. transition_to t = Some st \<and> name_of st = Some m \<longrightarrow>
                 toLowerCase ascii_engine m \<noteq> toLowerCase ascii_engine ''Closed''))
   \<and> callToolHandler no_errorsText ascii_engine quiet_jira ''update_issue'' (Some closed_args) =
       (Inr (Bare (JObj [(''success'', JBool True),
          (''message'', JStr
             ''No valid fields or status transition provided for issue T-1. No update performed.'')])),
        [GetTransitions ''T-1''])"
proof -
  have f: "field closed_args ''issueKey'' = Some (JStr ''T-1'')"
    "field closed_args ''summary'' = None" "field closed_args ''description'' = None"
    "field closed_args ''assignee'' = None" "field closed_args ''priority'' = None"
    "field closed_args ''status'' = Some (JStr ''Closed'')"
    by (simp_all add: field_def closed_args_def)
  have u: "\<exists>ts. getTransitions quiet_jira [] ''T-1'' = Inr ts
         \<and> (\<forall>t \<in> set (case transitions_of ts of None \<Rightarrow> [] | Some xs \<Rightarrow> xs).
               \<forall>st m. transition_to t = Some st \<and> name_of st = Some m \<longrightarrow>
                 toLowerCase ascii_engine m \<noteq> toLowerCase ascii_engine ''Closed'')"
    unfolding quiet_transitions by (simp add: ascii_engine_def lower_char_def)
  have "callToolHandler no_errorsText ascii_engine quiet_jira ''update_issue'' (Some closed_args) =
       (Inr (Bare (JObj [(''success'', JBool True),
          (''message'', JStr
             ''No valid fields or status transition provided for issue T-1. No update performed.'')])),
        [GetTransitions ''T-1''])"
    using update_issue_unresolved_status_is_noop
      [OF update_issue_tool update_issue_tool_args_valid(1) f,
       where j = quiet_jira and js = ascii_engine and et = no_errorsText] u
    by simp
  with f u update_issue_tool update_issue_tool_args_valid(1) show ?thesis by blast
qed

text \<open>
  C4, as amended. In a valid \<open>update_issue\<close> call with a non-empty set of fields to update
  and a status that resolves to a transition id, \<open>editIssue\<close> is the first call after the
  lookups, and the only calls that can follow it are \<open>doTransition\<close> and then \<open>getIssue\<close>,
  in that order. When \<open>editIssue\<close> throws, the call fails with that error as the catch block
  of the handler renders it, and nothing follows \<open>editIssue\<close> in the log. When \<open>editIssue\<close>
  succeeds and \<open>doTransition\<close> throws, the call fails with that error, \<open>doTransition\<close> is the
  last call of the log and nothing is read. When both succeed exactly one \<open>getIssue\<close>
  follows: the call returns its result as the content, or fails with its error.
\<close>

theorem update_issue_edits_before_transition:
  assumes "t \<in> set tools" and "name t = ''update_issue''"
    and "compile (inputSchema t) (JObj args)"
    and "field args ''issueKey'' = Some (JStr k)"
    and "resolve_priority js j (field args ''priority'') [] = (Inr priorityId, tr1)"
    and "update_fields args priorityId \<noteq> []"
    and "field args ''status'' = Some (JStr s)" and "s \<noteq> []"
    and "getTransitions j tr1 k = Inr ts" and "targetTransition js ts s = Some tt"
    and "transition_id tt = Some tid" and "tid \<noteq> []"
  shows "callToolHandler et js j ''update_issue'' (Some args) =
      (case editIssue j (tr1 @ [GetTransitions k]) k (update_fields args priorityId) of
         Inl e \<Rightarrow>
           (Inl (jira_api_error e),
            tr1 @ [GetTransitions k, EditIssue k (update_fields args priorityId)])
       | Inr _ \<Rightarrow>
           (case doTransition j
                   (tr1 @ [GetTransitions k, EditIssue k (update_fields args priorityId)]) k tid of
              Inl e \<Rightarrow>
                (Inl (jira_api_error e),
                 tr1 @ [GetTransitions k, EditIssue k (update_fields args priorityId),
                        DoTransition k tid])
            | Inr _ \<Rightarrow>
                (case getIssue j
                        (tr1 @ [GetTransitions k, EditIssue k (update_fields args priorityId),
                                DoTransition k tid]) k of
                   Inl e \<Rightarrow>
                     (Inl (jira_api_error e),
                      tr1 @ [GetTransitions k, EditIssue k (update_fields args priorityId),
                             DoTransition k tid, GetIssue k])
                 | Inr r \<Rightarrow>
                     (Inr (Content r),
                      tr1 @ [GetTransitions k, EditIssue k (update_fields args priorityId),
                             DoTransition k tid, GetIssue k]))))
   \<and> (\<exists>rest. snd (callToolHandler et js j ''update_issue'' (Some args)) =
            tr1 @ [GetTransitions k, EditIssue k (update_fields args priorityId)] @ rest
          \<and> (rest = [] \<or> rest = [DoTransition k tid]
               \<or> rest = [DoTransition k tid, GetIssue k]))"
proof -
  have f: "find_tool tools ''update_issue'' = Some t"
    using find_tool_known assms(1,2) by force
  have tr: "resolve_transition js j (template js (field args ''issueKey'')) (field args ''status'') tr1 =
      (Inr (Some tid), tr1 @ [GetTransitions k])"
    using resolve_transition_resolved [OF assms(8-12)] assms(4,7) by (simp add: template_def)
  note run = update_issue_run [OF assms(5) tr assms(6)]
  have k: "template js (field args ''issueKey'') = k"
    using assms(4) by (simp add: template_def)
  show ?thesis
    using assms(3)
    by (simp add: callToolHandler_run [OF f] run_tool_def run k Let_def split: sum.splits)
qed

theorem update_issue_edits_before_transition_witness:
  "tools ! 3 \<in> set tools \<and> name (tools ! 3) = ''update_issue''
   \<and> compile (inputSchema (tools ! 3)) (JObj done_args)
   \<and> field done_args ''issueKey'' = Some (JStr ''T-1'')
   \<and> resolve_priority ascii_engine quiet_jira (field done_args ''priority'') [] = (Inr None, [])
   \<and> update_fields done_args None \<noteq> []
   \<and> field done_args ''status'' = Some (JStr ''done'') \<and> ''done'' \<noteq> []
   \<and> targetTransition ascii_engine (Transitions (Some
        [Transition (Some ''21'') (Some (Named (Some ''3'') (Some ''In Progress''))),
         Transition (Some ''31'') (Some (Named (Some ''4'') (Some ''Done'')))])) ''done'' =
       Some (Transition (Some ''31'') (Some (Named (Some ''4'') (Some ''Done''))))
   \<and> callToolHandler no_errorsText ascii_engine quiet_jira ''update_issue'' (Some done_args) =
       (Inr (Content (JObj [(''key'', JStr ''T-1'')])),
        [GetTransitions ''T-1'', EditIssue ''T-1'' [(''summary'', JStr ''New title'')],
         DoTransition ''T-1'' ''31'', GetIssue ''T-1''])"
proof -
  have p: "resolve_priority ascii_engine quiet_jira (field done_args ''priority'') [] = (Inr None, [])"
    by (simp add: done_args_fields resolve_priority_absent)
  have n: "update_fields done_args None \<noteq> []"
    by (simp add: done_args_fields)
  have i: "transition_id (Transition (Some ''31'') (Some (Named (Some ''4'') (Some ''Done'')))) =
      Some ''31''" "''31'' \<noteq> []" "''done'' \<noteq> []"
    by simp_all
  note th = update_issue_edits_before_transition
    [OF update_issue_tool update_issue_tool_args_valid(2) done_args_fields(1) p n
       done_args_fields(3) i(3) quiet_transitions done_target i(1) i(2),
     where et = no_errorsText]
  have "callToolHandler no_errorsText ascii_engine quiet_jira ''update_issue'' (Some done_args) =
       (Inr (Content (JObj [(''key'', JStr ''T-1'')])),
        [GetTransitions ''T-1'', EditIssue ''T-1'' [(''summary'', JStr ''New title'')],
         DoTransition ''T-1'' ''31'', GetIssue ''T-1''])"
    using th by (simp add: quiet_update_calls done_args_fields prod_eq_iff)
  with p n i update_issue_tool update_issue_tool_args_valid(2) done_args_fields done_target
  show ?thesis by simp
qed

text \<open>
  C4 as stated fails when the field update itself fails: the error leaves the handler
  after \<open>editIssue\<close>, and neither a transition nor a read is issued.
\<close>

theorem update_issue_failed_edit_counterexample:
  "compile (inputSchema (tools ! 3)) (JObj done_args)
   \<and> update_fields done_args None \<noteq> []
   \<and> getTransitions (quiet_jira\<lparr>editIssue := \<lambda>tr k f. Inl bad_request_error\<rparr>) [] ''T-1'' =
       Inr (Transitions (Some
        [Transition (Some ''21'') (Some (Named (Some ''3'') (Some ''In Progress''))),
         Transition (Some ''31'') (Some (Named (Some ''4'') (Some ''Done'')))]))
   \<and> targetTransition ascii_engine (Transitions (Some
        [Transition (Some ''21'') (Some (Named (Some ''3'') (Some ''In Progress''))),
         Transition (Some ''31'') (Some (Named (Some ''4'') (Some ''Done'')))])) ''done'' =
       Some (Transition (Some ''31'') (Some (Named (Some ''4'') (Some ''Done''))))
   \<and> callToolHandler no_errorsText ascii_engine (quiet_jira\<lparr>editIssue := \<lambda>tr k f. Inl bad_request_error\<rparr>)
        ''update_issue'' (Some done_args) =
       (Inl (McpError InvalidParams ''Jira API Error (400): Field summary cannot be set''
               (Some bad_request_error)),
        [GetTransitions ''T-1'', EditIssue ''T-1'' [(''summary'', JStr ''New title'')]])
   \<and> DoTransition ''T-1'' ''31'' \<notin> set (snd (callToolHandler no_errorsText ascii_engine
        (quiet_jira\<lparr>editIssue := \<lambda>tr k f. Inl bad_request_error\<rparr>)
        ''update_issue'' (Some done_args)))
   \<and> GetIssue ''T-1'' \<notin> set (snd (callToolHandler no_errorsText ascii_engine
        (quiet_jira\<lparr>editIssue := \<lambda>tr k f. Inl bad_request_error\<rparr>)
        ''update_issue'' (Some done_args)))"
proof -
  let ?j = "quiet_jira\<lparr>editIssue := \<lambda>tr k f. Inl bad_request_error\<rparr>"
  have p: "resolve_priority ascii_engine ?j (field done_args ''priority'') [] = (Inr None, [])"
    by (simp add: done_args_fields resolve_priority_absent)
  have t: "resolve_transition ascii_engine ?j (template ascii_engine (field done_args ''issueKey''))
      (field done_args ''status'') [] = (Inr (Some ''31''), [GetTransitions ''T-1''])"
    using resolve_transition_resolved
        [where s = "''done''" and j = ?j and tr = "[]" and k = "''T-1''" and js = ascii_engine
           and tid = "''31''"]
      done_target quiet_transitions
    by (simp add: done_args_fields template_def failing_edit_calls)
  have n: "update_fields done_args None \<noteq> []"
    by (simp add: done_args_fields)
  have u: "update_issue ascii_engine ?j done_args [] =
      (Inl bad_request_error,
       [GetTransitions ''T-1'', EditIssue ''T-1'' [(''summary'', JStr ''New title'')]])"
    by (simp add: update_issue_run [OF p t n] done_args_fields template_def failing_edit_calls)
  have e: "jira_api_error bad_request_error =
      McpError InvalidParams ''Jira API Error (400): Field summary cannot be set''
        (Some bad_request_error)"
    by (simp add: jira_api_error_def bad_request_error_def statusCode_def mcpErrorCode_def
        errorMessage_def string_of_int_400)
  have run: "callToolHandler no_errorsText ascii_engine ?j ''update_issue'' (Some done_args) =
       (Inl (McpError InvalidParams ''Jira API Error (400): Field summary cannot be set''
               (Some bad_request_error)),
        [GetTransitions ''T-1'', EditIssue ''T-1'' [(''summary'', JStr ''New title'')]])"
    using update_issue_tool_args_valid(2)
    by (simp add: callToolHandler_run [OF find_tool_update_issue] run_tool_def u e)
  show ?thesis
    unfolding run
    using update_issue_tool_args_valid(2) n done_target quiet_transitions
    by (simp add: failing_edit_calls)
qed

text \<open>
  C5, as amended. In a valid \<open>create_issue\<close> call whose project and issue type resolve and
  whose given priority does not (no priority of that name, ignoring case, or the
  priorities lookup throws), the failed priority lookup does not end the call: the
  create-issue mutation is called exactly once, as the last call of the log, with a
  payload that has no \<open>priority\<close> field, and the call ends as that mutation ends, with
  its result as the content or with its error.
\<close>

theorem create_issue_without_priority:
  assumes "t \<in> set tools" and "name t = ''create_issue''"
    and "compile (inputSchema t) (JObj args)"
    and "field args ''projectKey'' = Some (JStr pk)"
    and "field args ''issueType'' = Some (JStr it)"
    and "getProject j [] pk = Inr project"
    and "project_id project = Some pid" and "pid \<noteq> []"
    and "getIssueAllTypes j [GetProject pk] = Inr types"
    and "find_by_name js types it = Some ty" and "id_of ty = Some tid" and "tid \<noteq> []"
    and "field args ''priority'' = Some (JStr p)"
    and "(\<exists>e. getPriorities j [GetProject pk, GetIssueAllTypes] = Inl e)
       \<or> (\<exists>ps. getPriorities j [GetProject pk, GetIssueAllTypes] = Inr ps
             \<and> (\<forall>x \<in> set ps. \<forall>m. name_of x = Some m \<longrightarrow> toLowerCase js m \<noteq> toLowerCase js p))"
  shows "\<exists>lookups payload.
     snd (callToolHandler et js j ''create_issue'' (Some args)) = lookups @ [CreateIssue payload]
     \<and> length (filter is_createIssue (snd (callToolHandler et js j ''create_issue'' (Some args)))) = 1
     \<and> field payload ''priority'' = None
     \<and> fst (callToolHandler et js j ''create_issue'' (Some args)) =
         (case createIssue j lookups payload of
            Inl e \<Rightarrow> Inl (jira_api_error e)
          | Inr r \<Rightarrow> Inr (Content r))"
proof -
  have f: "find_tool tools ''create_issue'' = Some t"
    using find_tool_known assms(1,2) by force
  let ?tr1 = "[GetProject pk, GetIssueAllTypes]"
  let ?tr2 = "?tr1 @ (if p = [] then [] else [GetPriorities])"
  have pr: "resolve_priority js j (field args ''priority'') ?tr1 = (Inr None, ?tr2)"
    using resolve_priority_unresolved [where j = j and tr = ?tr1 and p = p and js = js] assms(13,14) find_by_name_no_match
    by auto
  obtain cs where
    co: "resolve_components js j pid (field args ''components'') ?tr2 =
      (Inr cs, ?tr2 @ (case field args ''components'' of
                         Some (JArr (n # ns)) \<Rightarrow> [GetProjectComponents pid] | _ \<Rightarrow> []))"
    using resolve_components_total by blast
  let ?lookups = "?tr2 @ (case field args ''components'' of
                         Some (JArr (n # ns)) \<Rightarrow> [GetProjectComponents pid] | _ \<Rightarrow> [])"
  let ?fields = "create_fields ''name'' args pid tid None cs"
  have run: "run_tool js j ''create_issue'' args [] =
      (case createIssue j ?lookups ?fields of
         Inl e \<Rightarrow> (Inl e, ?lookups @ [CreateIssue ?fields])
       | Inr r \<Rightarrow> (Inr (Result r), ?lookups @ [CreateIssue ?fields]))"
    using assms(4-12) pr co
    by (simp add: run_tool_def create_issue_def Let_def io_defs template_def present_def
        found_id_def split: sum.splits)
  have nc: "filter is_createIssue ?lookups = []"
    by (simp split: option.splits json.splits list.splits)
  have "snd (callToolHandler et js j ''create_issue'' (Some args)) = ?lookups @ [CreateIssue ?fields]
     \<and> length (filter is_createIssue (snd (callToolHandler et js j ''create_issue'' (Some args)))) = 1
     \<and> field ?fields ''priority'' = None
     \<and> fst (callToolHandler et js j ''create_issue'' (Some args)) =
         (case createIssue j ?lookups ?fields of
            Inl e \<Rightarrow> Inl (jira_api_error e)
          | Inr r \<Rightarrow> Inr (Content r))"
    using assms(3) nc
    by (simp add: callToolHandler_run [OF f] run create_fields_no_priority split: sum.splits)
  then show ?thesis by blast
qed

theorem create_issue_without_priority_witness:
  "tools ! 8 \<in> set tools \<and> name (tools ! 8) = ''create_issue''
   \<and> compile (inputSchema (tools ! 8)) (JObj urgent_args)
   \<and> field urgent_args ''projectKey'' = Some (JStr ''TEST'')
   \<and> field urgent_args ''issueType'' = Some (JStr ''task'')
   \<and> getProject quiet_jira [] ''TEST'' = Inr (Project (Some ''10000''))
   \<and> getIssueAllTypes quiet_jira [GetProject ''TEST''] =
        Inr [Named (Some ''10001'') (Some ''Task''), Named (Some ''10002'') (Some ''Bug'')]
   \<and> find_by_name ascii_engine [Named (Some ''10001'') (Some ''Task''), Named (Some ''10002'') (Some ''Bug'')]
        ''task'' = Some (Named (Some ''10001'') (Some ''Task''))
   \<and> field urgent_args ''priority'' = Some (JStr ''Urgent'')
   \<and> getPriorities quiet_jira [GetProject ''TEST'', GetIssueAllTypes] =
        Inr [Named (Some ''1'') (Some ''High''), Named (Some ''2'') (Some ''Low'')]
   \<and> find_by_name ascii_engine [Named (Some ''1'') (Some ''High''), Named (Some ''2'') (Some ''Low'')]
        ''Urgent'' = None
   \<and> (\<exists>lookups payload.
         snd (callToolHandler no_errorsText ascii_engine quiet_jira ''create_issue'' (Some urgent_args)) =
           lookups @ [CreateIssue payload]
         \<and> field payload ''priority'' = None)
   \<and> length (filter is_createIssue
        (snd (callToolHandler no_errorsText ascii_engine quiet_jira ''create_issue'' (Some urgent_args)))) = 1
   \<and> fst (callToolHandler no_errorsText ascii_engine quiet_jira ''create_issue'' (Some urgent_args)) =
        Inr (Content (JObj [(''id'', JStr ''123''), (''key'', JStr ''TEST-123'')]))"
proof -
  have i: "project_id (Project (Some ''10000'')) = Some ''10000''" "''10000'' \<noteq> []"
    "id_of (Named (Some ''10001'') (Some ''Task'')) = Some ''10001''" "''10001'' \<noteq> []"
    by simp_all
  have u: "(\<exists>e. getPriorities quiet_jira [GetProject ''TEST'', GetIssueAllTypes] = Inl e)
     \<or> (\<exists>ps. getPriorities quiet_jira [GetProject ''TEST'', GetIssueAllTypes] = Inr ps
           \<and> (\<forall>x \<in> set ps. \<forall>m. name_of x = Some m \<longrightarrow> toLowerCase ascii_engine m \<noteq> toLowerCase ascii_engine ''Urgent''))"
    unfolding quiet_priorities using urgent_is_no_priority by simp
  note th = create_issue_without_priority
    [OF create_issue_tool urgent_args_valid urgent_args_fields(1,2) quiet_lookups(1) i(1,2)
       quiet_lookups(2) task_is_a_type i(3,4) urgent_args_fields(3) u,
     where et = no_errorsText]
  from th have
    "(\<exists>lookups payload.
         snd (callToolHandler no_errorsText ascii_engine quiet_jira ''create_issue'' (Some urgent_args)) =
           lookups @ [CreateIssue payload]
         \<and> field payload ''priority'' = None)
     \<and> length (filter is_createIssue
        (snd (callToolHandler no_errorsText ascii_engine quiet_jira ''create_issue'' (Some urgent_args)))) = 1
     \<and> fst (callToolHandler no_errorsText ascii_engine quiet_jira ''create_issue'' (Some urgent_args)) =
        Inr (Content (JObj [(''id'', JStr ''123''), (''key'', JStr ''TEST-123'')]))"
    by (auto simp: quiet_lookups(3))
  with create_issue_tool urgent_args_valid urgent_args_fields quiet_lookups task_is_a_type
    quiet_priorities find_by_name_no_match [OF urgent_is_no_priority]
  show ?thesis by simp
qed

text \<open>
  C5 as stated fails when Jira rejects the mutation: the project and the issue type
  resolve, the priority does not, \<open>createIssue\<close> is called once without a priority, and
  the call fails with the error of the mutation.
\<close>

theorem create_issue_rejected_mutation_counterexample:
  "compile (inputSchema (tools ! 8)) (JObj urgent_args)
   \<and> getProject (quiet_jira\<lparr>createIssue := \<lambda>tr f. Inl required_field_error\<rparr>) [] ''TEST'' =
        Inr (Project (Some ''10000''))
   \<and> getIssueAllTypes (quiet_jira\<lparr>createIssue := \<lambda>tr f. Inl required_field_error\<rparr>)
        [GetProject ''TEST''] =
        Inr [Named (Some ''10001'') (Some ''Task''), Named (Some ''10002'') (Some ''Bug'')]
   \<and> find_by_name ascii_engine [Named (Some ''10001'') (Some ''Task''), Named (Some ''10002'') (Some ''Bug'')]
        ''task'' = Some (Named (Some ''10001'') (Some ''Task''))
   \<and> getPriorities (quiet_jira\<lparr>createIssue := \<lambda>tr f. Inl required_field_error\<rparr>)
        [GetProject ''TEST'', GetIssueAllTypes] =
        Inr [Named (Some ''1'') (Some ''High''), Named (Some ''2'') (Some ''Low'')]
   \<and> find_by_name ascii_engine [Named (Some ''1'') (Some ''High''), Named (Some ''2'') (Some ''Low'')]
        ''Urgent'' = None
   \<and> callToolHandler no_errorsText ascii_engine (quiet_jira\<lparr>createIssue := \<lambda>tr f. Inl required_field_error\<rparr>)
        ''create_issue'' (Some urgent_args) =
       (Inl (McpError InvalidParams ''Jira API Error (400): Field Sprint is required''
               (Some required_field_error)),
        [GetProject ''TEST'', GetIssueAllTypes, GetPriorities,
         CreateIssue
           [(''project'', JObj [(''id'', JStr ''10000'')]), (''summary'', JStr ''New test issue''),
            (''issuetype'', JObj [(''id'', JStr ''10001'')])]])"
proof -
  let ?j = "quiet_jira\<lparr>createIssue := \<lambda>tr f. Inl required_field_error\<rparr>"
  have l: "getProject ?j [] ''TEST'' = Inr (Project (Some ''10000''))"
    "getIssueAllTypes ?j [GetProject ''TEST''] =
       Inr [Named (Some ''10001'') (Some ''Task''), Named (Some ''10002'') (Some ''Bug'')]"
    "getPriorities ?j [GetProject ''TEST'', GetIssueAllTypes] =
       Inr [Named (Some ''1'') (Some ''High''), Named (Some ''2'') (Some ''Low'')]"
    by (simp_all add: quiet_lookups quiet_priorities)
  have c: "createIssue ?j tr fs = Inl required_field_error" for tr fs
    by simp
  have e: "jira_api_error required_field_error =
      McpError InvalidParams ''Jira API Error (400): Field Sprint is required''
        (Some required_field_error)"
    by (simp add: jira_api_error_def required_field_error_def statusCode_def mcpErrorCode_def
        errorMessage_def string_of_int_400)
  have run: "callToolHandler no_errorsText ascii_engine ?j ''create_issue'' (Some urgent_args) =
       (Inl (McpError InvalidParams ''Jira API Error (400): Field Sprint is required''
               (Some required_field_error)),
        [GetProject ''TEST'', GetIssueAllTypes, GetPriorities,
         CreateIssue
           [(''project'', JObj [(''id'', JStr ''10000'')]), (''summary'', JStr ''New test issue''),
            (''issuetype'', JObj [(''id'', JStr ''10001'')])]])"
    using urgent_args_valid
    by (simp add: callToolHandler_run [OF find_tool_create_issue] urgent_run [OF l] c e)
  from run l urgent_args_valid task_is_a_type find_by_name_no_match [OF urgent_is_no_priority]
  show ?thesis by simp
qed

end
